theory Spec2Isabelle
  imports Complex_Main "HOL-Library.Sublist"
begin

section \<open>Primitive parsers (utils.ts)\<close>

text \<open>
  JavaScript strings are modelled as \<open>string\<close>. The regular expressions of the source
  use \<open>\\d\<close> without the unicode flag, which matches the ten ASCII digits only, and
  \<open>^\<close>/\<open>$\<close> without the multiline flag, which anchor at both ends of the input.
\<close>

definition digit_of :: "char \<Rightarrow> int option" where
  "digit_of c =
     map_of [(CHR ''0'', 0), (CHR ''1'', 1), (CHR ''2'', 2), (CHR ''3'', 3), (CHR ''4'', 4),
             (CHR ''5'', 5), (CHR ''6'', 6), (CHR ''7'', 7), (CHR ''8'', 8), (CHR ''9'', 9)] c"

definition is_digit :: "char \<Rightarrow> bool" where
  "is_digit c = (digit_of c \<noteq> None)"

text \<open>\<open>/^\\d{8}$/.test(s)\<close>: \<open>n\<close> digits and then the end of the input.\<close>

fun digits_then_end :: "nat \<Rightarrow> string \<Rightarrow> bool" where
  "digits_then_end 0 s = (s = [])"
| "digits_then_end (Suc n) [] = False"
| "digits_then_end (Suc n) (c # s) = (is_digit c \<and> digits_then_end n s)"

definition date_regex :: "string \<Rightarrow> bool" where
  "date_regex s = digits_then_end 8 s"

text \<open>\<open>/^\\d{4}(\\d{2})?$/.test(s)\<close>: four digits, then optionally two more, then the end.\<close>

fun four_digits_rest :: "nat \<Rightarrow> string \<Rightarrow> bool" where
  "four_digits_rest 0 s = (s = [] \<or> digits_then_end 2 s)"
| "four_digits_rest (Suc n) [] = False"
| "four_digits_rest (Suc n) (c # s) = (is_digit c \<and> four_digits_rest n s)"

definition time_regex :: "string \<Rightarrow> bool" where
  "time_regex s = four_digits_rest 4 s"

text \<open>\<open>str.substring(a, b)\<close> for \<open>a \<le> b\<close>; indices beyond the end are clamped.\<close>

definition substring :: "nat \<Rightarrow> nat \<Rightarrow> string \<Rightarrow> string" where
  "substring a b s = take (b - a) (drop a s)"

text \<open>
  \<open>Number.parseInt(str, 10)\<close>: leading white space is skipped, an optional sign is read,
  then the longest run of decimal digits; \<open>None\<close> stands for NaN (no digit at all).
\<close>

definition is_space :: "char \<Rightarrow> bool" where
  "is_space c = (c \<in> set [CHR '' '', CHR 0x09, CHR 0x0A, CHR 0x0B, CHR 0x0C, CHR 0x0D])"

fun decimal :: "int \<Rightarrow> string \<Rightarrow> int" where
  "decimal acc [] = acc"
| "decimal acc (c # s) = decimal (10 * acc + (case digit_of c of Some d \<Rightarrow> d | None \<Rightarrow> 0)) s"

definition parseInt :: "string \<Rightarrow> int option" where
  "parseInt str =
     (let t = dropWhile is_space str;
          neg = (case t of c # _ \<Rightarrow> c = CHR ''-'' | [] \<Rightarrow> False);
          u = (case t of c # r \<Rightarrow> if c = CHR ''-'' \<or> c = CHR ''+'' then r else t | [] \<Rightarrow> t);
          ds = takeWhile is_digit u
      in if ds = [] then None
         else Some (if neg then - decimal 0 ds else decimal 0 ds))"

record NaiveDate =
  year :: int
  month :: int
  day :: int

record Time =
  hour :: int
  minute :: int
  second :: int

record NaiveDatetime =
  date :: NaiveDate
  time :: Time

text \<open>
  The four messages of utils.ts, as the UTF-8 bytes of the source text. They say, in this
  order: the date format is invalid and should be "YYYYMMDD"; invalid date value; the time
  format is invalid and should be "HHMM" or "HHMMSS"; invalid time value.
\<close>

definition date_format_message :: string where
  "date_format_message =
     [CHR 0xE6, CHR 0x97, CHR 0xA5, CHR 0xE6, CHR 0x9C, CHR 0x9F, CHR 0xE6, CHR 0xA0, CHR 0xBC,
      CHR 0xE5, CHR 0xBC, CHR 0x8F, CHR 0xE6, CHR 0x97, CHR 0xA0, CHR 0xE6, CHR 0x95, CHR 0x88,
      CHR 0xEF, CHR 0xBC, CHR 0x8C, CHR 0xE5, CHR 0xBA, CHR 0x94, CHR 0xE4, CHR 0xB8, CHR 0xBA,
      CHR 0x22, CHR 0x59, CHR 0x59, CHR 0x59, CHR 0x59, CHR 0x4D, CHR 0x4D, CHR 0x44, CHR 0x44,
      CHR 0x22]"

definition date_value_message :: string where
  "date_value_message =
     [CHR 0xE6, CHR 0x97, CHR 0xA0, CHR 0xE6, CHR 0x95, CHR 0x88, CHR 0xE7, CHR 0x9A, CHR 0x84,
      CHR 0xE6, CHR 0x97, CHR 0xA5, CHR 0xE6, CHR 0x9C, CHR 0x9F, CHR 0xE5, CHR 0x80, CHR 0xBC]"

definition time_format_message :: string where
  "time_format_message =
     [CHR 0xE6, CHR 0x97, CHR 0xB6, CHR 0xE9, CHR 0x97, CHR 0xB4, CHR 0xE6, CHR 0xA0, CHR 0xBC,
      CHR 0xE5, CHR 0xBC, CHR 0x8F, CHR 0xE6, CHR 0x97, CHR 0xA0, CHR 0xE6, CHR 0x95, CHR 0x88,
      CHR 0xEF, CHR 0xBC, CHR 0x8C, CHR 0xE5, CHR 0xBA, CHR 0x94, CHR 0xE4, CHR 0xB8, CHR 0xBA,
      CHR 0x22, CHR 0x48, CHR 0x48, CHR 0x4D, CHR 0x4D, CHR 0x22, CHR 0xE6, CHR 0x88, CHR 0x96,
      CHR 0x22, CHR 0x48, CHR 0x48, CHR 0x4D, CHR 0x4D, CHR 0x53, CHR 0x53, CHR 0x22]"

definition time_value_message :: string where
  "time_value_message =
     [CHR 0xE6, CHR 0x97, CHR 0xA0, CHR 0xE6, CHR 0x95, CHR 0x88, CHR 0xE7, CHR 0x9A, CHR 0x84,
      CHR 0xE6, CHR 0x97, CHR 0xB6, CHR 0xE9, CHR 0x97, CHR 0xB4, CHR 0xE5, CHR 0x80, CHR 0xBC]"

text \<open>
  An \<open>Error\<close> object that the program can throw: \<open>new Error(message)\<close> of utils.ts, or the
  error of longport's constructor \<open>new NaiveDate(year, month, day)\<close>, whose message is the
  library's.
\<close>

datatype error_object = Message string | InvalidDate int int int

text \<open>
  \<open>new NaiveDate(year, month, day)\<close> builds a date of the calendar: it returns for a day
  that the month of that year has, and throws for any other. The years that reach it here
  are those written with four digits.
\<close>

definition leap_year :: "int \<Rightarrow> bool" where
  "leap_year y = (y mod 4 = 0 \<and> (y mod 100 \<noteq> 0 \<or> y mod 400 = 0))"

definition days_in_month :: "int \<Rightarrow> int \<Rightarrow> int" where
  "days_in_month y m =
     (if m = 2 then (if leap_year y then 29 else 28)
      else if m = 4 \<or> m = 6 \<or> m = 9 \<or> m = 11 then 30
      else 31)"

definition NaiveDate_new :: "int \<Rightarrow> int \<Rightarrow> int \<Rightarrow> error_object + NaiveDate" where
  "NaiveDate_new y m d =
     (if 1 \<le> m \<and> m \<le> 12 \<and> 1 \<le> d \<and> d \<le> days_in_month y m
      then Inr \<lparr>year = y, month = m, day = d\<rparr>
      else Inl (InvalidDate y m d))"

text \<open>
  A function of utils.ts either returns or throws; the thrown error is the \<open>Inl\<close> branch.
  \<open>new Time(hour, minute, second)\<close> is called with an hour below 24 and a minute and a
  second below 60 only, and \<open>new NaiveDatetime(date, time)\<close> pairs its arguments.
\<close>

definition parseNaiveDate :: "string \<Rightarrow> error_object + NaiveDate" where
  "parseNaiveDate dateStr =
     (if \<not> date_regex dateStr then Inl (Message date_format_message)
      else
        let year = parseInt (substring 0 4 dateStr);
            month = parseInt (substring 4 6 dateStr);
            day = parseInt (substring 6 8 dateStr)
        in case (year, month, day) of
             (Some y, Some m, Some d) \<Rightarrow>
               if m < 1 \<or> m > 12 \<or> d < 1 \<or> d > 31 then Inl (Message date_value_message)
               else NaiveDate_new y m d
           | _ \<Rightarrow> Inl (Message date_value_message))"

definition parseTime :: "string \<Rightarrow> error_object + Time" where
  "parseTime timeStr =
     (if \<not> time_regex timeStr then Inl (Message time_format_message)
      else
        let hour = parseInt (substring 0 2 timeStr);
            minute = parseInt (substring 2 4 timeStr);
            second = (if length timeStr > 4 then parseInt (substring 4 6 timeStr) else Some 0)
        in case (hour, minute, second) of
             (Some h, Some m, Some s) \<Rightarrow>
               if h < 0 \<or> h > 23 \<or> m < 0 \<or> m > 59 \<or> s < 0 \<or> s > 59
               then Inl (Message time_value_message)
               else Inr \<lparr>hour = h, minute = m, second = s\<rparr>
           | _ \<Rightarrow> Inl (Message time_value_message))"

text \<open>
  \<open>timeStr ? parseTime(timeStr) : new Time(0, 0, 0)\<close>: an absent and an empty time string
  are both falsy and give midnight.
\<close>

definition parseNaiveDatetime :: "string \<Rightarrow> string option \<Rightarrow> error_object + NaiveDatetime" where
  "parseNaiveDatetime dateStr timeStr =
     (case parseNaiveDate dateStr of
        Inl e \<Rightarrow> Inl e
      | Inr d \<Rightarrow>
          (case (if timeStr = None \<or> timeStr = Some [] then Inr \<lparr>hour = 0, minute = 0, second = 0\<rparr>
                 else parseTime (the timeStr)) of
             Inl e \<Rightarrow> Inl e
           | Inr t \<Rightarrow> Inr \<lparr>date = d, time = t\<rparr>))"


section \<open>Untyped arguments\<close>

text \<open>
  The arguments of a call arrive as JSON data (\<open>args: unknown\<close>); \<open>None\<close> of type
  \<open>json option\<close> is JavaScript's \<open>undefined\<close>, also the value of a property that an object
  does not have. An object lists each of its keys once, and reading the property \<open>k\<close>
  of \<open>JObj kv\<close> is \<open>map_of kv k\<close>.
\<close>

datatype json =
    JNull
  | JBool bool
  | JNum rat
  | JStr string
  | JArr "json list"
  | JObj "(string \<times> json) list"

section \<open>Schemas (the zod combinators used by constants.ts)\<close>

datatype path_elem = Key string | Index nat

datatype issue_code =
    invalid_type
  | invalid_union
  | invalid_enum_value string "string list"
  | invalid_string
  | too_small
  | too_big
  | custom

datatype zod_issue = ZodIssue (code: issue_code) (path: "path_elem list") (message: "string option")

text \<open>
  The outcome of running a schema on an input: the parsed value, the issues of a failed
  validation (they become a \<open>ZodError\<close>), or an \<open>Error\<close> thrown by a transform function,
  which is not caught by the schema and leaves the whole parse at once. The input is
  accepted exactly when the outcome is \<open>Ok\<close>. \<open>Invalid\<close> lists the issues of the
  fields: zod also runs a refinement on an object all of whose fields have the right
  type and some of which fail a check (the pattern of a string, the bounds of a number),
  and then adds the issue of the refinement to the list; that issue is not listed here.
\<close>

datatype 'a parsed = Ok 'a | Invalid "zod_issue list" | Throws error_object

type_synonym 'a schema = "json option \<Rightarrow> 'a parsed"

definition under :: "path_elem \<Rightarrow> 'a parsed \<Rightarrow> 'a parsed" where
  "under k r =
     (case r of
        Invalid is \<Rightarrow> Invalid (map (\<lambda>i. ZodIssue (code i) (k # path i) (message i)) is)
      | _ \<Rightarrow> r)"

text \<open>
  The members of an object or an array are parsed in order; the issues of all of them are
  collected, and an error thrown while parsing one of them ends the parse.
\<close>

fun both :: "('a \<Rightarrow> 'b) parsed \<Rightarrow> 'a parsed \<Rightarrow> 'b parsed" where
  "both (Throws e) _ = Throws e"
| "both _ (Throws e) = Throws e"
| "both (Ok f) (Ok x) = Ok (f x)"
| "both (Ok f) (Invalid js) = Invalid js"
| "both (Invalid is) (Ok x) = Invalid is"
| "both (Invalid is) (Invalid js) = Invalid (is @ js)"

definition field :: "string \<Rightarrow> 'a schema \<Rightarrow> (string \<times> json) list \<Rightarrow> 'a parsed" where
  "field k sch kv = under (Key k) (sch (map_of kv k))"

definition z_string :: "string schema" where
  "z_string v = (case v of Some (JStr s) \<Rightarrow> Ok s | _ \<Rightarrow> Invalid [ZodIssue invalid_type [] None])"

text \<open>\<open>z.union([z.literal(a), z.literal(b), ...])\<close>: the input is one of the listed literals.\<close>

definition z_literals :: "json list \<Rightarrow> json schema" where
  "z_literals lits v =
     (case v of
        Some j \<Rightarrow> if j \<in> set lits then Ok j else Invalid [ZodIssue invalid_union [] None]
      | None \<Rightarrow> Invalid [ZodIssue invalid_union [] None])"

definition z_optional :: "'a schema \<Rightarrow> 'a option schema" where
  "z_optional sch v =
     (case v of
        None \<Rightarrow> Ok None
      | Some _ \<Rightarrow> (case sch v of Ok x \<Rightarrow> Ok (Some x) | Invalid is \<Rightarrow> Invalid is | Throws e \<Rightarrow> Throws e))"

definition z_default :: "json \<Rightarrow> 'a schema \<Rightarrow> 'a schema" where
  "z_default d sch v = (case v of None \<Rightarrow> sch (Some d) | Some _ \<Rightarrow> sch v)"

text \<open>The transform function returns its value or throws an \<open>Error\<close>.\<close>

definition z_transform :: "('a \<Rightarrow> error_object + 'b) \<Rightarrow> 'a schema \<Rightarrow> 'b schema" where
  "z_transform f sch v =
     (case sch v of
        Ok x \<Rightarrow> (case f x of Inl e \<Rightarrow> Throws e | Inr y \<Rightarrow> Ok y)
      | Invalid is \<Rightarrow> Invalid is
      | Throws e \<Rightarrow> Throws e)"

definition z_refine :: "('a \<Rightarrow> bool) \<Rightarrow> path_elem list \<Rightarrow> 'a schema \<Rightarrow> 'a schema" where
  "z_refine check p sch v =
     (case sch v of
        Ok x \<Rightarrow> if check x then Ok x else Invalid [ZodIssue custom p None]
      | r \<Rightarrow> r)"

fun z_items :: "'a schema \<Rightarrow> nat \<Rightarrow> json list \<Rightarrow> 'a list parsed" where
  "z_items sch i [] = Ok []"
| "z_items sch i (x # xs) =
     both (both (Ok (#)) (under (Index i) (sch (Some x)))) (z_items sch (Suc i) xs)"

definition z_array :: "'a schema \<Rightarrow> 'a list schema" where
  "z_array sch v =
     (case v of Some (JArr xs) \<Rightarrow> z_items sch 0 xs | _ \<Rightarrow> Invalid [ZodIssue invalid_type [] None])"

text \<open>\<open>z.array(item).max(n, message)\<close>: the length check comes first, the elements after it.\<close>

definition z_array_max :: "'a schema \<Rightarrow> nat \<Rightarrow> string \<Rightarrow> 'a list schema" where
  "z_array_max sch n msg v =
     (case v of
        Some (JArr xs) \<Rightarrow>
          both (both (Ok (\<lambda>_ ys. ys))
                  (if length xs > n then Invalid [ZodIssue too_big [] (Some msg)] else Ok ()))
               (z_items sch 0 xs)
      | _ \<Rightarrow> Invalid [ZodIssue invalid_type [] None])"

text \<open>\<open>z.number().int().min(lo).max(hi)\<close>: the three checks in this order, each with its issue.\<close>

definition z_int_range :: "rat \<Rightarrow> rat \<Rightarrow> rat schema" where
  "z_int_range lo hi v =
     (case v of
        Some (JNum n) \<Rightarrow>
          let is = (if of_int \<lfloor>n\<rfloor> \<noteq> n then [ZodIssue invalid_type [] None] else []) @
                   (if n < lo then [ZodIssue too_small [] None] else []) @
                   (if n > hi then [ZodIssue too_big [] None] else [])
          in if is = [] then Ok n else Invalid is
      | _ \<Rightarrow> Invalid [ZodIssue invalid_type [] None])"

text \<open>\<open>z.object({...})\<close> takes an object; the argument parses its properties.\<close>

definition z_object :: "((string \<times> json) list \<Rightarrow> 'a parsed) \<Rightarrow> 'a schema" where
  "z_object props v =
     (case v of Some (JObj kv) \<Rightarrow> props kv | _ \<Rightarrow> Invalid [ZodIssue invalid_type [] None])"

subsection \<open>Symbols\<close>

definition is_upper :: "char \<Rightarrow> bool" where
  "is_upper c = (c \<in> set ''ABCDEFGHIJKLMNOPQRSTUVWXYZ'')"

text \<open>
  \<open>/^[A-Z0-9]+\\.[A-Z]+$/\<close>: the first class does not contain the dot, so the longest run
  of its characters is the only candidate for the part before the dot.
\<close>

definition symbol_regex :: "string \<Rightarrow> bool" where
  "symbol_regex s =
     (let a = takeWhile (\<lambda>c. is_upper c \<or> is_digit c) s
      in a \<noteq> [] \<and>
         (case drop (length a) s of
            [] \<Rightarrow> False
          | c # t \<Rightarrow> c = CHR ''.'' \<and> t \<noteq> [] \<and> list_all is_upper t))"

definition symbol_message :: string where
  "symbol_message = ''Symbol must be in the format of \"ticker.region\"''"

definition max_symbols_message :: string where
  "max_symbols_message = ''The maximum number of symbols in each request is 500''"

definition SymbolSchema :: "string schema" where
  "SymbolSchema v =
     (case z_string v of
        Ok s \<Rightarrow> if symbol_regex s then Ok s
                else Invalid [ZodIssue invalid_string [] (Some symbol_message)]
      | r \<Rightarrow> r)"


subsection \<open>The parameter specifications\<close>

text \<open>
  The literals of the enumerations \<open>Period\<close>, \<open>AdjustType\<close> and \<open>CalcIndex\<close> and the date-time
  pattern of \<open>z.string().datetime()\<close> belong to the libraries; the schemas take them as the
  parameters \<open>periods\<close>, \<open>adjusts\<close>, \<open>indexes\<close> and \<open>ok\<close>. A validated request is the tuple
  of its properties, in the order of the schema; the candlestick request is a record.
\<close>

definition symbols_max_500 :: "string list schema" where
  "symbols_max_500 = z_array_max SymbolSchema 500 max_symbols_message"

definition QuoteStaticInfoSchema :: "string list schema" where
  "QuoteStaticInfoSchema = z_object (\<lambda>kv. field ''symbol'' symbols_max_500 kv)"

definition QuoteRealtimeInfoSchema :: "string list schema" where
  "QuoteRealtimeInfoSchema = z_object (\<lambda>kv. field ''symbol'' symbols_max_500 kv)"

definition QuoteDepthSchema :: "string schema" where
  "QuoteDepthSchema = z_object (\<lambda>kv. field ''symbol'' SymbolSchema kv)"

definition QuoteTradesSchema :: "(string \<times> rat) schema" where
  "QuoteTradesSchema =
     z_object (\<lambda>kv. both (both (Ok Pair) (field ''symbol'' SymbolSchema kv))
                          (field ''count'' (z_int_range 1 1000) kv))"

definition QuoteIntradaySchema :: "string schema" where
  "QuoteIntradaySchema = z_object (\<lambda>kv. field ''symbol'' SymbolSchema kv)"

record DateRequest =
  start :: NaiveDate
  end' :: NaiveDate

record OffsetRequest =
  forward :: bool
  datetime :: "NaiveDatetime option"
  count :: "rat option"

record CandlestickParams =
  symbol :: string
  period :: json
  adjust_type :: json
  query_type :: json
  date_request :: "DateRequest option"
  offset_request :: "OffsetRequest option"

text \<open>The transform of \<open>date_request\<close>: \<open>start\<close> is computed first, then \<open>end\<close>.\<close>

definition date_request_transform :: "string \<times> string \<Rightarrow> error_object + DateRequest" where
  "date_request_transform value =
     (case parseNaiveDate (fst value) of
        Inl e \<Rightarrow> Inl e
      | Inr s \<Rightarrow> (case parseNaiveDate (snd value) of
                    Inl e \<Rightarrow> Inl e
                  | Inr e \<Rightarrow> Inr \<lparr>start = s, end' = e\<rparr>))"

definition date_request_schema :: "DateRequest option schema" where
  "date_request_schema =
     z_optional (z_transform date_request_transform
       (z_object (\<lambda>kv. both (both (Ok Pair) (field ''start_date'' z_string kv))
                            (field ''end_date'' z_string kv))))"

text \<open>
  The object of \<open>offset_request\<close> before its transform: direction, date, minute, count.
  The transform is applied to the optional object, so it also runs on \<open>undefined\<close>;
  \<open>value?.date ? ... : undefined\<close> takes an absent and an empty date as no date.
\<close>

type_synonym offset_object = "json \<times> string option \<times> string option \<times> rat option"

definition offset_object_schema :: "offset_object schema" where
  "offset_object_schema =
     z_object (\<lambda>kv.
       both (both (both (both (Ok (\<lambda>d a m c. (d, a, m, c)))
         (field ''direction'' (z_literals [JNum 0, JNum 1]) kv))
         (field ''date'' (z_optional z_string) kv))
         (field ''minute'' (z_optional z_string) kv))
         (field ''count'' (z_default (JNum 10) (z_optional (z_int_range 1 1000))) kv))"

definition offset_request_transform ::
  "offset_object option \<Rightarrow> error_object + OffsetRequest option" where
  "offset_request_transform value =
     (case value of
        None \<Rightarrow> Inr (Some \<lparr>forward = False, datetime = None, count = None\<rparr>)
      | Some (direction, date_text, minute_text, cnt) \<Rightarrow>
          if date_text = None \<or> date_text = Some []
          then Inr (Some \<lparr>forward = (direction = JNum 1), datetime = None, count = cnt\<rparr>)
          else (case parseNaiveDatetime (the date_text) minute_text of
                  Inl e \<Rightarrow> Inl e
                | Inr dt \<Rightarrow>
                    Inr (Some \<lparr>forward = (direction = JNum 1), datetime = Some dt, count = cnt\<rparr>)))"

definition offset_request_schema :: "OffsetRequest option schema" where
  "offset_request_schema = z_transform offset_request_transform (z_optional offset_object_schema)"

definition candlestick_refinement :: "CandlestickParams \<Rightarrow> bool" where
  "candlestick_refinement data =
     (if query_type data = JNum 1 \<and> offset_request data = None then False
      else if query_type data = JNum 2 \<and> date_request data = None then False
      else True)"

definition candlestick_object :: "json list \<Rightarrow> json list \<Rightarrow> CandlestickParams schema" where
  "candlestick_object periods adjusts =
     z_object (\<lambda>kv.
       both (both (both (both (both (both
         (Ok (\<lambda>s p a q d off. \<lparr>symbol = s, period = p, adjust_type = a, query_type = q,
                                 date_request = d, offset_request = off\<rparr>))
         (field ''symbol'' SymbolSchema kv))
         (field ''period'' (z_literals periods) kv))
         (field ''adjust_type'' (z_literals adjusts) kv))
         (field ''query_type'' (z_literals [JNum 1, JNum 2]) kv))
         (field ''date_request'' date_request_schema kv))
         (field ''offset_request'' offset_request_schema kv))"

definition QuoteHistoryCandlesticksSchema :: "json list \<Rightarrow> json list \<Rightarrow> CandlestickParams schema" where
  "QuoteHistoryCandlesticksSchema periods adjusts =
     z_refine candlestick_refinement [Key ''query_type''] (candlestick_object periods adjusts)"

definition QuoteCapitalFlowSchema :: "string schema" where
  "QuoteCapitalFlowSchema = z_object (\<lambda>kv. field ''symbol'' SymbolSchema kv)"

definition QuoteCapitalDistributionSchema :: "string schema" where
  "QuoteCapitalDistributionSchema = z_object (\<lambda>kv. field ''symbol'' SymbolSchema kv)"

definition QuoteCalcIndexSchema :: "json list \<Rightarrow> (string list \<times> json list) schema" where
  "QuoteCalcIndexSchema indexes =
     z_object (\<lambda>kv. both (both (Ok Pair) (field ''symbols'' symbols_max_500 kv))
                          (field ''calc_index'' (z_array (z_literals indexes)) kv))"

definition QuoteWatchListSchema :: "unit schema" where
  "QuoteWatchListSchema = z_object (\<lambda>kv. Ok ())"

text \<open>\<open>new Date(value)\<close> is kept as the text it is built from.\<close>

datatype Date = Date string

definition iso_datetime :: "(string \<Rightarrow> bool) \<Rightarrow> string schema" where
  "iso_datetime ok v =
     (case z_string v of
        Ok s \<Rightarrow> if ok s then Ok s else Invalid [ZodIssue invalid_string [] None]
      | r \<Rightarrow> r)"

definition to_Date :: "string option \<Rightarrow> error_object + Date option" where
  "to_Date value = (if value = None \<or> value = Some [] then Inr None else Inr (Some (Date (the value))))"

definition TradeHistoryExecutionsSchema ::
  "(string \<Rightarrow> bool) \<Rightarrow> (string option \<times> Date option \<times> Date option) schema" where
  "TradeHistoryExecutionsSchema ok =
     z_object (\<lambda>kv.
       both (both (both (Ok (\<lambda>s a b. (s, a, b)))
         (field ''symbol'' (z_optional SymbolSchema) kv))
         (field ''startAt'' (z_transform to_Date (z_optional (iso_datetime ok))) kv))
         (field ''endAt'' (z_transform to_Date (z_optional (iso_datetime ok))) kv))"

definition TradeTodayExecutionsSchema :: "(string option \<times> string option) schema" where
  "TradeTodayExecutionsSchema =
     z_object (\<lambda>kv. both (both (Ok Pair) (field ''symbol'' (z_optional SymbolSchema) kv))
                          (field ''orderId'' (z_optional z_string) kv))"

definition TradeAccountBalanceSchema :: "json option schema" where
  "TradeAccountBalanceSchema =
     z_object (\<lambda>kv. field ''currency''
        (z_optional (z_literals [JStr ''HKD'', JStr ''USD'', JStr ''CNH''])) kv)"

definition TradeStockPositionsSchema :: "string list option schema" where
  "TradeStockPositionsSchema =
     z_object (\<lambda>kv. field ''symbol'' (z_optional (z_array SymbolSchema)) kv)"


section \<open>Faults and the result envelope (api.ts)\<close>

text \<open>
  What a \<open>catch\<close> clause can receive: a \<open>ZodError\<close> with its issues, any other \<open>Error\<close>,
  or a value that is no \<open>Error\<close>. Such a value is given by what \<open>JSON.stringify\<close> does
  with it: it returns a text, it returns \<open>undefined\<close> (for \<open>undefined\<close>, a function, a
  symbol), or it throws an error (for a BigInt, a cyclic object).
\<close>

datatype stringified = Text string | NoText | Unserializable error_object

datatype thrown = ZodError "zod_issue list" | Error error_object | NonError stringified

text \<open>\<open>schema.parse(args)\<close> returns the validated request or throws.\<close>

definition parse :: "'a parsed \<Rightarrow> thrown + 'a" where
  "parse r = (case r of Ok x \<Rightarrow> Inr x | Invalid is \<Rightarrow> Inl (ZodError is) | Throws m \<Rightarrow> Inl (Error m))"

text \<open>
  A block \<open>{type: 'text', text: t}\<close>; \<open>TextUndefined\<close> is the block whose \<open>text\<close> is
  \<open>undefined\<close>.
\<close>

datatype content_block = TextBlock string | TextUndefined

record ServerResult =
  content :: "content_block list"
  isError :: "bool option"

text \<open>The two backend requests of the candlestick handler, with their arguments.\<close>

datatype candlestick_query =
    ByOffset string json json "bool option" "NaiveDatetime option" rat
  | ByDate string json json "NaiveDate option" "NaiveDate option"

text \<open>
  The libraries the program calls (longport, zod-validation-error, \<open>JSON.stringify\<close> on the
  objects of the backend), as parameters: \<open>'c\<close> is a configuration, \<open>'h\<close> a session
  handle, \<open>'r\<close> an object returned by the backend. A call of the backend returns or
  throws. \<open>TradeContext_new c n\<close> is the outcome of the construction number \<open>n\<close> (counted
  from 0); \<open>stockPositions\<close> gives the \<open>channels\<close> of the response;
  \<open>InvalidDate_message y m d\<close> is the message of the error of \<open>new NaiveDate(y, m, d)\<close>.
  The calls \<open>intraday\<close>, \<open>historyCandlesticks\<close>, \<open>capitalFlow\<close> and \<open>calcIndexes\<close> return
  arrays (of lines, of candlesticks, of indexes per symbol), as the calls whose result the
  handlers spread do; \<open>depth\<close> and \<open>capitalDistribution\<close> return one object.
\<close>

record ('c, 'h, 'r) longport =
  Period_values :: "json list"
  AdjustType_values :: "json list"
  CalcIndex_values :: "json list"
  datetime_pattern :: "string \<Rightarrow> bool"
  fromError :: "zod_issue list \<Rightarrow> string"
  InvalidDate_message :: "int \<Rightarrow> int \<Rightarrow> int \<Rightarrow> string"
  JSON_stringify :: "'r \<Rightarrow> thrown + string"
  Config_fromEnv :: "thrown + 'c"
  TradeContext_new :: "'c \<Rightarrow> nat \<Rightarrow> thrown + 'h"
  QuoteContext_new :: "'c \<Rightarrow> nat \<Rightarrow> thrown + 'h"
  staticInfo :: "'h \<Rightarrow> string list \<Rightarrow> thrown + 'r list"
  quote :: "'h \<Rightarrow> string list \<Rightarrow> thrown + 'r list"
  depth :: "'h \<Rightarrow> string \<Rightarrow> thrown + 'r"
  trades :: "'h \<Rightarrow> string \<Rightarrow> rat \<Rightarrow> thrown + 'r list"
  intraday :: "'h \<Rightarrow> string \<Rightarrow> thrown + 'r list"
  historyCandlesticks :: "'h \<Rightarrow> candlestick_query \<Rightarrow> thrown + 'r list"
  capitalFlow :: "'h \<Rightarrow> string \<Rightarrow> thrown + 'r list"
  capitalDistribution :: "'h \<Rightarrow> string \<Rightarrow> thrown + 'r"
  calcIndexes :: "'h \<Rightarrow> string list \<Rightarrow> json list \<Rightarrow> thrown + 'r list"
  watchlist :: "'h \<Rightarrow> thrown + 'r list"
  historyExecutions :: "'h \<Rightarrow> string option \<times> Date option \<times> Date option \<Rightarrow> thrown + 'r list"
  todayExecutions :: "'h \<Rightarrow> string option \<times> string option \<Rightarrow> thrown + 'r list"
  accountBalance :: "'h \<Rightarrow> json option \<Rightarrow> thrown + 'r list"
  stockPositions :: "'h \<Rightarrow> string list option \<Rightarrow> thrown + 'r list"

text \<open>
  \<open>handleErrorResult\<close> computes the message and then builds the envelope. For a value
  that is no \<open>Error\<close> the message is \<open>JSON.stringify(error)\<close>, which can be \<open>undefined\<close>
  and can throw; the method then throws too.
\<close>

definition error_message :: "('c, 'h, 'r) longport \<Rightarrow> error_object \<Rightarrow> string" where
  "error_message sdk e =
     (case e of Message m \<Rightarrow> m | InvalidDate y m d \<Rightarrow> InvalidDate_message sdk y m d)"

definition handleErrorResult :: "('c, 'h, 'r) longport \<Rightarrow> thrown \<Rightarrow> thrown + ServerResult" where
  "handleErrorResult sdk error =
     (case (case error of
              ZodError is \<Rightarrow> Inr (Some (fromError sdk is))
            | Error e \<Rightarrow> Inr (Some (error_message sdk e))
            | NonError v \<Rightarrow>
                (case v of
                   Text t \<Rightarrow> Inr (Some t)
                 | NoText \<Rightarrow> Inr None
                 | Unserializable e \<Rightarrow> Inl (Error e))) of
        Inl e \<Rightarrow> Inl e
      | Inr errorMessage \<Rightarrow>
          Inr \<lparr>content = [case errorMessage of Some m \<Rightarrow> TextBlock m | None \<Rightarrow> TextUndefined],
               isError = Some True\<rparr>)"

text \<open>
  The arguments of \<open>handleSuccessResult\<close>: an object of the backend, or an array of them
  passed as one argument. \<open>JSON.stringify\<close> of an array writes its elements in order,
  separated by commas, between brackets, and throws when an element does.
\<close>

datatype 'r result_value = Object 'r | Array "'r list"

fun stringify_elements :: "('r \<Rightarrow> thrown + string) \<Rightarrow> 'r list \<Rightarrow> thrown + string list" where
  "stringify_elements f [] = Inr []"
| "stringify_elements f (x # xs) =
     (case f x of
        Inl e \<Rightarrow> Inl e
      | Inr t \<Rightarrow> (case stringify_elements f xs of
                    Inl e \<Rightarrow> Inl e
                  | Inr ts \<Rightarrow> Inr (t # ts)))"

fun join_commas :: "string list \<Rightarrow> string" where
  "join_commas [] = []"
| "join_commas [t] = t"
| "join_commas (t # ts) = t @ '','' @ join_commas ts"

definition stringify :: "('c, 'h, 'r) longport \<Rightarrow> 'r result_value \<Rightarrow> thrown + string" where
  "stringify sdk v =
     (case v of
        Object x \<Rightarrow> JSON_stringify sdk x
      | Array xs \<Rightarrow>
          (case stringify_elements (JSON_stringify sdk) xs of
             Inl e \<Rightarrow> Inl e
           | Inr ts \<Rightarrow> Inr (''['' @ join_commas ts @ '']'')))"

text \<open>\<open>result.map(item => ...)\<close>: the items in order; a throwing item ends the map.\<close>

fun stringify_all :: "('v \<Rightarrow> thrown + string) \<Rightarrow> 'v list \<Rightarrow> thrown + content_block list" where
  "stringify_all f [] = Inr []"
| "stringify_all f (item # items) =
     (case f item of
        Inl e \<Rightarrow> Inl e
      | Inr t \<Rightarrow> (case stringify_all f items of
                    Inl e \<Rightarrow> Inl e
                  | Inr bs \<Rightarrow> Inr (TextBlock t # bs)))"

definition handleSuccessResult ::
  "('c, 'h, 'r) longport \<Rightarrow> 'r result_value list \<Rightarrow> thrown + ServerResult" where
  "handleSuccessResult sdk result =
     (case stringify_all (stringify sdk) result of
        Inl e \<Rightarrow> Inl e
      | Inr bs \<Rightarrow> Inr \<lparr>content = bs, isError = None\<rparr>)"

section \<open>Sessions (api.ts)\<close>

text \<open>
  The fields of a \<open>LongBridge\<close> object (\<open>config_memo\<close> is the private field \<open>_config\<close>), and
  the counts of the calls of \<open>Config.fromEnv\<close>, \<open>TradeContext.new\<close> and \<open>QuoteContext.new\<close>
  made by the process so far.
\<close>

record ('c, 'h) LongBridge =
  config_memo :: "'c option"
  tradeContext :: "'h option"
  quoteContext :: "'h option"

record world =
  config_loads :: nat
  trade_constructions :: nat
  quote_constructions :: nat

definition new_LongBridge :: "('c, 'h) LongBridge" where
  "new_LongBridge = \<lparr>config_memo = None, tradeContext = None, quoteContext = None\<rparr>"

definition start_world :: world where
  "start_world = \<lparr>config_loads = 0, trade_constructions = 0, quote_constructions = 0\<rparr>"

type_synonym ('c, 'h) state = "('c, 'h) LongBridge \<times> world"

definition config :: "('c, 'h, 'r) longport \<Rightarrow> ('c, 'h) state \<Rightarrow> (thrown + 'c) \<times> ('c, 'h) state" where
  "config sdk s =
     (case s of (this, w) \<Rightarrow>
        (case config_memo this of
           Some c \<Rightarrow> (Inr c, this, w)
         | None \<Rightarrow>
             (case Config_fromEnv sdk of
                Inl e \<Rightarrow> (Inl e, this, w\<lparr>config_loads := Suc (config_loads w)\<rparr>)
              | Inr c \<Rightarrow> (Inr c, this\<lparr>config_memo := Some c\<rparr>,
                           w\<lparr>config_loads := Suc (config_loads w)\<rparr>))))"

text \<open>
  \<open>getTradeContext\<close> and \<open>getQuoteContext\<close> are asynchronous: the part before the
  \<open>await\<close> tests the field and starts the construction; the part after it, run when the
  construction has settled, stores the handle in the field and returns the field. Other
  code can run between the two parts.
\<close>

datatype 'h pending = Ready 'h | Rejected thrown | Awaiting "thrown + 'h"

definition getTradeContext_begin ::
  "('c, 'h, 'r) longport \<Rightarrow> ('c, 'h) state \<Rightarrow> 'h pending \<times> ('c, 'h) state" where
  "getTradeContext_begin sdk s =
     (case tradeContext (fst s) of
        Some h \<Rightarrow> (Ready h, s)
      | None \<Rightarrow>
          (case config sdk s of
             (Inl e, s') \<Rightarrow> (Rejected e, s')
           | (Inr c, this, w) \<Rightarrow>
               (Awaiting (TradeContext_new sdk c (trade_constructions w)),
                this, w\<lparr>trade_constructions := Suc (trade_constructions w)\<rparr>)))"

definition getTradeContext_resume ::
  "'h pending \<Rightarrow> ('c, 'h) state \<Rightarrow> (thrown + 'h) \<times> ('c, 'h) state" where
  "getTradeContext_resume p s =
     (case p of
        Ready h \<Rightarrow> (Inr h, s)
      | Rejected e \<Rightarrow> (Inl e, s)
      | Awaiting (Inl e) \<Rightarrow> (Inl e, s)
      | Awaiting (Inr h) \<Rightarrow> (Inr h, (fst s)\<lparr>tradeContext := Some h\<rparr>, snd s))"

definition getTradeContext ::
  "('c, 'h, 'r) longport \<Rightarrow> ('c, 'h) state \<Rightarrow> (thrown + 'h) \<times> ('c, 'h) state" where
  "getTradeContext sdk s = (case getTradeContext_begin sdk s of (p, s') \<Rightarrow> getTradeContext_resume p s')"

definition getQuoteContext_begin ::
  "('c, 'h, 'r) longport \<Rightarrow> ('c, 'h) state \<Rightarrow> 'h pending \<times> ('c, 'h) state" where
  "getQuoteContext_begin sdk s =
     (case quoteContext (fst s) of
        Some h \<Rightarrow> (Ready h, s)
      | None \<Rightarrow>
          (case config sdk s of
             (Inl e, s') \<Rightarrow> (Rejected e, s')
           | (Inr c, this, w) \<Rightarrow>
               (Awaiting (QuoteContext_new sdk c (quote_constructions w)),
                this, w\<lparr>quote_constructions := Suc (quote_constructions w)\<rparr>)))"

definition getQuoteContext_resume ::
  "'h pending \<Rightarrow> ('c, 'h) state \<Rightarrow> (thrown + 'h) \<times> ('c, 'h) state" where
  "getQuoteContext_resume p s =
     (case p of
        Ready h \<Rightarrow> (Inr h, s)
      | Rejected e \<Rightarrow> (Inl e, s)
      | Awaiting (Inl e) \<Rightarrow> (Inl e, s)
      | Awaiting (Inr h) \<Rightarrow> (Inr h, (fst s)\<lparr>quoteContext := Some h\<rparr>, snd s))"

definition getQuoteContext ::
  "('c, 'h, 'r) longport \<Rightarrow> ('c, 'h) state \<Rightarrow> (thrown + 'h) \<times> ('c, 'h) state" where
  "getQuoteContext sdk s = (case getQuoteContext_begin sdk s of (p, s') \<Rightarrow> getQuoteContext_resume p s')"


section \<open>Tool handlers (api.ts)\<close>

text \<open>
  A handler is \<open>try { ... } catch (error) { return this.handleErrorResult(error) }\<close>. The
  statements of the \<open>try\<close> block run in sequence on the state of the object and of the
  process; the first one that throws ends the block. For a handler \<open>f\<close>, \<open>f_try\<close> is its
  \<open>try\<close> block. The handlers are those of the api.ts that has a method for every entry
  of \<open>TOOLS_CONFIG\<close>; its older version has six of them, with the same statements and
  the envelope built in place.
\<close>

definition and_then ::
  "('s \<Rightarrow> (thrown + 'a) \<times> 's) \<Rightarrow> ('a \<Rightarrow> 's \<Rightarrow> (thrown + 'b) \<times> 's) \<Rightarrow> 's \<Rightarrow> (thrown + 'b) \<times> 's" where
  "and_then m f s = (case m s of (Inl e, s') \<Rightarrow> (Inl e, s') | (Inr x, s') \<Rightarrow> f x s')"

definition step :: "thrown + 'a \<Rightarrow> 's \<Rightarrow> (thrown + 'a) \<times> 's" where
  "step r s = (r, s)"

definition try_catch ::
  "('c, 'h, 'r) longport \<Rightarrow> ('s \<Rightarrow> (thrown + ServerResult) \<times> 's) \<Rightarrow>
   's \<Rightarrow> (thrown + ServerResult) \<times> 's" where
  "try_catch sdk body s =
     (case body s of
        (Inr result, s') \<Rightarrow> (Inr result, s')
      | (Inl error, s') \<Rightarrow> (handleErrorResult sdk error, s'))"

text \<open>
  A handler returns its envelope, or throws what its \<open>catch\<close> clause throws (the promise
  of the asynchronous method is then rejected).
\<close>

type_synonym ('c, 'h) handler =
  "json option \<Rightarrow> ('c, 'h) state \<Rightarrow> (thrown + ServerResult) \<times> ('c, 'h) state"

definition quoteStaticInfo_try ::
  "('c, 'h, 'r) longport \<Rightarrow> json option \<Rightarrow> ('c, 'h) state \<Rightarrow> (thrown + ServerResult) \<times> ('c, 'h) state" where
  "quoteStaticInfo_try sdk args =
     and_then (step (parse (QuoteStaticInfoSchema args))) (\<lambda>params.
     and_then (getQuoteContext sdk) (\<lambda>ctx.
     and_then (step (staticInfo sdk ctx params)) (\<lambda>result.
     step (handleSuccessResult sdk (map Object result)))))"

definition quoteStaticInfo :: "('c, 'h, 'r) longport \<Rightarrow> ('c, 'h) handler" where
  "quoteStaticInfo sdk args = try_catch sdk (quoteStaticInfo_try sdk args)"

definition quoteRealtimeInfo_try ::
  "('c, 'h, 'r) longport \<Rightarrow> json option \<Rightarrow> ('c, 'h) state \<Rightarrow> (thrown + ServerResult) \<times> ('c, 'h) state" where
  "quoteRealtimeInfo_try sdk args =
     and_then (step (parse (QuoteRealtimeInfoSchema args))) (\<lambda>params.
     and_then (getQuoteContext sdk) (\<lambda>ctx.
     and_then (step (quote sdk ctx params)) (\<lambda>result.
     step (handleSuccessResult sdk (map Object result)))))"

definition quoteRealtimeInfo :: "('c, 'h, 'r) longport \<Rightarrow> ('c, 'h) handler" where
  "quoteRealtimeInfo sdk args = try_catch sdk (quoteRealtimeInfo_try sdk args)"

definition quoteDepth_try ::
  "('c, 'h, 'r) longport \<Rightarrow> json option \<Rightarrow> ('c, 'h) state \<Rightarrow> (thrown + ServerResult) \<times> ('c, 'h) state" where
  "quoteDepth_try sdk args =
     and_then (step (parse (QuoteDepthSchema args))) (\<lambda>params.
     and_then (getQuoteContext sdk) (\<lambda>ctx.
     and_then (step (depth sdk ctx params)) (\<lambda>result.
     step (handleSuccessResult sdk [Object result]))))"

definition quoteDepth :: "('c, 'h, 'r) longport \<Rightarrow> ('c, 'h) handler" where
  "quoteDepth sdk args = try_catch sdk (quoteDepth_try sdk args)"

definition quoteTrades_try ::
  "('c, 'h, 'r) longport \<Rightarrow> json option \<Rightarrow> ('c, 'h) state \<Rightarrow> (thrown + ServerResult) \<times> ('c, 'h) state" where
  "quoteTrades_try sdk args =
     and_then (step (parse (QuoteTradesSchema args))) (\<lambda>params.
     and_then (getQuoteContext sdk) (\<lambda>ctx.
     and_then (step (trades sdk ctx (fst params) (snd params))) (\<lambda>result.
     step (handleSuccessResult sdk (map Object result)))))"

definition quoteTrades :: "('c, 'h, 'r) longport \<Rightarrow> ('c, 'h) handler" where
  "quoteTrades sdk args = try_catch sdk (quoteTrades_try sdk args)"

definition quoteIntraday_try ::
  "('c, 'h, 'r) longport \<Rightarrow> json option \<Rightarrow> ('c, 'h) state \<Rightarrow> (thrown + ServerResult) \<times> ('c, 'h) state" where
  "quoteIntraday_try sdk args =
     and_then (step (parse (QuoteIntradaySchema args))) (\<lambda>params.
     and_then (getQuoteContext sdk) (\<lambda>ctx.
     and_then (step (intraday sdk ctx params)) (\<lambda>result.
     step (handleSuccessResult sdk [Array result]))))"

definition quoteIntraday :: "('c, 'h, 'r) longport \<Rightarrow> ('c, 'h) handler" where
  "quoteIntraday sdk args = try_catch sdk (quoteIntraday_try sdk args)"

text \<open>
  The request that \<open>quoteHistoryCandlesticks\<close> sends: \<open>params.offset_request?.forward\<close>,
  \<open>params.offset_request?.datetime\<close> and \<open>params.offset_request?.count ?? 10\<close> when
  \<open>query_type\<close> is 1, \<open>params.date_request?.start\<close> and \<open>params.date_request?.end\<close> otherwise.
\<close>

definition candlestick_request :: "CandlestickParams \<Rightarrow> candlestick_query" where
  "candlestick_request params =
     (if query_type params = JNum 1
      then ByOffset (symbol params) (period params) (adjust_type params)
             (map_option forward (offset_request params))
             (Option.bind (offset_request params) datetime)
             (case Option.bind (offset_request params) count of Some c \<Rightarrow> c | None \<Rightarrow> 10)
      else ByDate (symbol params) (period params) (adjust_type params)
             (map_option start (date_request params))
             (map_option end' (date_request params)))"

definition quoteHistoryCandlesticks_try ::
  "('c, 'h, 'r) longport \<Rightarrow> json option \<Rightarrow> ('c, 'h) state \<Rightarrow> (thrown + ServerResult) \<times> ('c, 'h) state" where
  "quoteHistoryCandlesticks_try sdk args =
     and_then (step (parse (QuoteHistoryCandlesticksSchema (Period_values sdk)
                              (AdjustType_values sdk) args))) (\<lambda>params.
     and_then (getQuoteContext sdk) (\<lambda>ctx.
     and_then (step (historyCandlesticks sdk ctx (candlestick_request params))) (\<lambda>result.
     step (handleSuccessResult sdk [Array result]))))"

definition quoteHistoryCandlesticks :: "('c, 'h, 'r) longport \<Rightarrow> ('c, 'h) handler" where
  "quoteHistoryCandlesticks sdk args = try_catch sdk (quoteHistoryCandlesticks_try sdk args)"

definition quoteCapitalFlow_try ::
  "('c, 'h, 'r) longport \<Rightarrow> json option \<Rightarrow> ('c, 'h) state \<Rightarrow> (thrown + ServerResult) \<times> ('c, 'h) state" where
  "quoteCapitalFlow_try sdk args =
     and_then (step (parse (QuoteCapitalFlowSchema args))) (\<lambda>params.
     and_then (getQuoteContext sdk) (\<lambda>ctx.
     and_then (step (capitalFlow sdk ctx params)) (\<lambda>result.
     step (handleSuccessResult sdk [Array result]))))"

definition quoteCapitalFlow :: "('c, 'h, 'r) longport \<Rightarrow> ('c, 'h) handler" where
  "quoteCapitalFlow sdk args = try_catch sdk (quoteCapitalFlow_try sdk args)"

definition quoteCapitalDistribution_try ::
  "('c, 'h, 'r) longport \<Rightarrow> json option \<Rightarrow> ('c, 'h) state \<Rightarrow> (thrown + ServerResult) \<times> ('c, 'h) state" where
  "quoteCapitalDistribution_try sdk args =
     and_then (step (parse (QuoteCapitalDistributionSchema args))) (\<lambda>params.
     and_then (getQuoteContext sdk) (\<lambda>ctx.
     and_then (step (capitalDistribution sdk ctx params)) (\<lambda>result.
     step (handleSuccessResult sdk [Object result]))))"

definition quoteCapitalDistribution :: "('c, 'h, 'r) longport \<Rightarrow> ('c, 'h) handler" where
  "quoteCapitalDistribution sdk args = try_catch sdk (quoteCapitalDistribution_try sdk args)"

definition quoteCalcIndex_try ::
  "('c, 'h, 'r) longport \<Rightarrow> json option \<Rightarrow> ('c, 'h) state \<Rightarrow> (thrown + ServerResult) \<times> ('c, 'h) state" where
  "quoteCalcIndex_try sdk args =
     and_then (step (parse (QuoteCalcIndexSchema (CalcIndex_values sdk) args))) (\<lambda>params.
     and_then (getQuoteContext sdk) (\<lambda>ctx.
     and_then (step (calcIndexes sdk ctx (fst params) (snd params))) (\<lambda>result.
     step (handleSuccessResult sdk [Array result]))))"

definition quoteCalcIndex :: "('c, 'h, 'r) longport \<Rightarrow> ('c, 'h) handler" where
  "quoteCalcIndex sdk args = try_catch sdk (quoteCalcIndex_try sdk args)"

text \<open>\<open>quoteWatchList\<close> does not read its arguments.\<close>

definition quoteWatchList_try ::
  "('c, 'h, 'r) longport \<Rightarrow> json option \<Rightarrow> ('c, 'h) state \<Rightarrow> (thrown + ServerResult) \<times> ('c, 'h) state" where
  "quoteWatchList_try sdk args =
     and_then (getQuoteContext sdk) (\<lambda>ctx.
     and_then (step (watchlist sdk ctx)) (\<lambda>result.
     step (handleSuccessResult sdk (map Object result))))"

definition quoteWatchList :: "('c, 'h, 'r) longport \<Rightarrow> ('c, 'h) handler" where
  "quoteWatchList sdk args = try_catch sdk (quoteWatchList_try sdk args)"

definition tradeHistoryExecutions_try ::
  "('c, 'h, 'r) longport \<Rightarrow> json option \<Rightarrow> ('c, 'h) state \<Rightarrow> (thrown + ServerResult) \<times> ('c, 'h) state" where
  "tradeHistoryExecutions_try sdk args =
     and_then (step (parse (TradeHistoryExecutionsSchema (datetime_pattern sdk) args))) (\<lambda>params.
     and_then (getTradeContext sdk) (\<lambda>ctx.
     and_then (step (historyExecutions sdk ctx params)) (\<lambda>result.
     step (handleSuccessResult sdk (map Object result)))))"

definition tradeHistoryExecutions :: "('c, 'h, 'r) longport \<Rightarrow> ('c, 'h) handler" where
  "tradeHistoryExecutions sdk args = try_catch sdk (tradeHistoryExecutions_try sdk args)"

definition tradeTodayExecutions_try ::
  "('c, 'h, 'r) longport \<Rightarrow> json option \<Rightarrow> ('c, 'h) state \<Rightarrow> (thrown + ServerResult) \<times> ('c, 'h) state" where
  "tradeTodayExecutions_try sdk args =
     and_then (step (parse (TradeTodayExecutionsSchema args))) (\<lambda>params.
     and_then (getTradeContext sdk) (\<lambda>ctx.
     and_then (step (todayExecutions sdk ctx params)) (\<lambda>result.
     step (handleSuccessResult sdk (map Object result)))))"

definition tradeTodayExecutions :: "('c, 'h, 'r) longport \<Rightarrow> ('c, 'h) handler" where
  "tradeTodayExecutions sdk args = try_catch sdk (tradeTodayExecutions_try sdk args)"

definition tradeAccountBalance_try ::
  "('c, 'h, 'r) longport \<Rightarrow> json option \<Rightarrow> ('c, 'h) state \<Rightarrow> (thrown + ServerResult) \<times> ('c, 'h) state" where
  "tradeAccountBalance_try sdk args =
     and_then (step (parse (TradeAccountBalanceSchema args))) (\<lambda>params.
     and_then (getTradeContext sdk) (\<lambda>ctx.
     and_then (step (accountBalance sdk ctx params)) (\<lambda>result.
     step (handleSuccessResult sdk (map Object result)))))"

definition tradeAccountBalance :: "('c, 'h, 'r) longport \<Rightarrow> ('c, 'h) handler" where
  "tradeAccountBalance sdk args = try_catch sdk (tradeAccountBalance_try sdk args)"

definition tradeStockPositions_try ::
  "('c, 'h, 'r) longport \<Rightarrow> json option \<Rightarrow> ('c, 'h) state \<Rightarrow> (thrown + ServerResult) \<times> ('c, 'h) state" where
  "tradeStockPositions_try sdk args =
     and_then (step (parse (TradeStockPositionsSchema args))) (\<lambda>params.
     and_then (getTradeContext sdk) (\<lambda>ctx.
     and_then (step (stockPositions sdk ctx params)) (\<lambda>result.
     step (handleSuccessResult sdk (map Object result)))))"

definition tradeStockPositions :: "('c, 'h, 'r) longport \<Rightarrow> ('c, 'h) handler" where
  "tradeStockPositions sdk args = try_catch sdk (tradeStockPositions_try sdk args)"

section \<open>The tool registry and the dispatcher (constants.ts, index.ts)\<close>

datatype Tool =
    QuoteStaticInfo
  | QuoteRealtimeInfo
  | QuoteDepth
  | QuoteTrades
  | QuoteIntraday
  | QuoteHistoryCandlesticks
  | QuoteCapitalFlow
  | QuoteCapitalDistribution
  | QuoteCalcIndex
  | QuoteWatchList
  | TradeHistoryExecutions
  | TradeTodayExecutions
  | TradeAccountBalance
  | TradeStockPositions

definition Tool_members :: "Tool list" where
  "Tool_members =
     [QuoteStaticInfo, QuoteRealtimeInfo, QuoteDepth, QuoteTrades, QuoteIntraday,
      QuoteHistoryCandlesticks, QuoteCapitalFlow, QuoteCapitalDistribution, QuoteCalcIndex,
      QuoteWatchList, TradeHistoryExecutions, TradeTodayExecutions, TradeAccountBalance,
      TradeStockPositions]"

fun Tool_value :: "Tool \<Rightarrow> string" where
  "Tool_value QuoteStaticInfo = ''quote-static-info''"
| "Tool_value QuoteRealtimeInfo = ''quote-realtime-info''"
| "Tool_value QuoteDepth = ''quote-depth''"
| "Tool_value QuoteTrades = ''quote-trades''"
| "Tool_value QuoteIntraday = ''quote-intraday''"
| "Tool_value QuoteHistoryCandlesticks = ''quote-history-candlesticks''"
| "Tool_value QuoteCapitalFlow = ''quote-capital-flow''"
| "Tool_value QuoteCapitalDistribution = ''quote-capital-distribution''"
| "Tool_value QuoteCalcIndex = ''quote-calc-index''"
| "Tool_value QuoteWatchList = ''quote-watch-list''"
| "Tool_value TradeHistoryExecutions = ''trade-history-executions''"
| "Tool_value TradeTodayExecutions = ''trade-today-executions''"
| "Tool_value TradeAccountBalance = ''trade-account-balance''"
| "Tool_value TradeStockPositions = ''trade-stock-positions''"

text \<open>
  \<open>ToolNameSchema.safeParse(name)\<close> for \<open>z.nativeEnum(Tool)\<close>: the member with this value, or
  the issue that holds the received name and the values of the enumeration.
\<close>

definition ToolNameSchema :: "string \<Rightarrow> zod_issue list + Tool" where
  "ToolNameSchema name =
     (case find (\<lambda>t. Tool_value t = name) Tool_members of
        Some t \<Rightarrow> Inr t
      | None \<Rightarrow> Inl [ZodIssue (invalid_enum_value name (map Tool_value Tool_members)) [] None])"

text \<open>\<open>longBridge[TOOLS_CONFIG[name].funcName]\<close>: the method that the table names.\<close>

fun TOOLS_CONFIG_func :: "('c, 'h, 'r) longport \<Rightarrow> Tool \<Rightarrow> ('c, 'h) handler" where
  "TOOLS_CONFIG_func sdk QuoteStaticInfo = quoteStaticInfo sdk"
| "TOOLS_CONFIG_func sdk QuoteRealtimeInfo = quoteRealtimeInfo sdk"
| "TOOLS_CONFIG_func sdk QuoteDepth = quoteDepth sdk"
| "TOOLS_CONFIG_func sdk QuoteTrades = quoteTrades sdk"
| "TOOLS_CONFIG_func sdk QuoteIntraday = quoteIntraday sdk"
| "TOOLS_CONFIG_func sdk QuoteHistoryCandlesticks = quoteHistoryCandlesticks sdk"
| "TOOLS_CONFIG_func sdk QuoteCapitalFlow = quoteCapitalFlow sdk"
| "TOOLS_CONFIG_func sdk QuoteCapitalDistribution = quoteCapitalDistribution sdk"
| "TOOLS_CONFIG_func sdk QuoteCalcIndex = quoteCalcIndex sdk"
| "TOOLS_CONFIG_func sdk QuoteWatchList = quoteWatchList sdk"
| "TOOLS_CONFIG_func sdk TradeHistoryExecutions = tradeHistoryExecutions sdk"
| "TOOLS_CONFIG_func sdk TradeTodayExecutions = tradeTodayExecutions sdk"
| "TOOLS_CONFIG_func sdk TradeAccountBalance = tradeAccountBalance sdk"
| "TOOLS_CONFIG_func sdk TradeStockPositions = tradeStockPositions sdk"

text \<open>The \<open>try\<close> block of the method that the table names.\<close>

fun try_block ::
  "('c, 'h, 'r) longport \<Rightarrow> Tool \<Rightarrow> json option \<Rightarrow> ('c, 'h) state \<Rightarrow> (thrown + ServerResult) \<times> ('c, 'h) state" where
  "try_block sdk QuoteStaticInfo = quoteStaticInfo_try sdk"
| "try_block sdk QuoteRealtimeInfo = quoteRealtimeInfo_try sdk"
| "try_block sdk QuoteDepth = quoteDepth_try sdk"
| "try_block sdk QuoteTrades = quoteTrades_try sdk"
| "try_block sdk QuoteIntraday = quoteIntraday_try sdk"
| "try_block sdk QuoteHistoryCandlesticks = quoteHistoryCandlesticks_try sdk"
| "try_block sdk QuoteCapitalFlow = quoteCapitalFlow_try sdk"
| "try_block sdk QuoteCapitalDistribution = quoteCapitalDistribution_try sdk"
| "try_block sdk QuoteCalcIndex = quoteCalcIndex_try sdk"
| "try_block sdk QuoteWatchList = quoteWatchList_try sdk"
| "try_block sdk TradeHistoryExecutions = tradeHistoryExecutions_try sdk"
| "try_block sdk TradeTodayExecutions = tradeTodayExecutions_try sdk"
| "try_block sdk TradeAccountBalance = tradeAccountBalance_try sdk"
| "try_block sdk TradeStockPositions = tradeStockPositions_try sdk"

text \<open>
  The handler of \<open>CallToolRequestSchema\<close>: it makes a \<open>new LongBridge()\<close> for the request,
  and that object is dropped when the request has been answered.
\<close>

definition callTool ::
  "('c, 'h, 'r) longport \<Rightarrow> string \<Rightarrow> json option \<Rightarrow> world \<Rightarrow> (thrown + ServerResult) \<times> world" where
  "callTool sdk name args w =
     (let longBridge = new_LongBridge
      in case ToolNameSchema name of
           Inr tool \<Rightarrow>
             (case TOOLS_CONFIG_func sdk tool args (longBridge, w) of
                (result, _, w') \<Rightarrow> (result, w'))
         | Inl error \<Rightarrow> (handleErrorResult sdk (ZodError error), w))"

text \<open>The requests of a process, answered one after the other.\<close>

fun serve ::
  "('c, 'h, 'r) longport \<Rightarrow> (string \<times> json option) list \<Rightarrow> world \<Rightarrow>
   (thrown + ServerResult) list \<times> world" where
  "serve sdk [] w = ([], w)"
| "serve sdk ((name, args) # requests) w =
     (case callTool sdk name args w of
        (result, w') \<Rightarrow> (case serve sdk requests w' of (results, w'') \<Rightarrow> (result # results, w'')))"

section \<open>Notions used to state the properties\<close>

text \<open>
  The success envelope for the items of a backend result: no error flag, as many blocks as
  items, and block \<open>i\<close> holds the text that \<open>JSON.stringify\<close> returns for item \<open>i\<close>.
\<close>

definition one_block_per_item :: "('c, 'h, 'r) longport \<Rightarrow> 'r list \<Rightarrow> ServerResult \<Rightarrow> bool" where
  "one_block_per_item sdk items result \<longleftrightarrow>
     isError result = None \<and>
     length (content result) = length items \<and>
     (\<forall>i < length items.
        \<exists>t. JSON_stringify sdk (items ! i) = Inr t \<and> content result ! i = TextBlock t)"

text \<open>
  The success envelope with a single block for a whole collection: no error flag, and one
  block that holds the text that \<open>JSON.stringify\<close> returns for the array.
\<close>

definition one_block_for_array :: "('c, 'h, 'r) longport \<Rightarrow> 'r list \<Rightarrow> ServerResult \<Rightarrow> bool" where
  "one_block_for_array sdk items result \<longleftrightarrow>
     isError result = None \<and>
     (\<exists>t. stringify sdk (Array items) = Inr t \<and> content result = [TextBlock t])"



text \<open>
  The text of zod for an \<open>invalid_enum_value\<close> issue, after the prefix that
  zod-validation-error puts before the issues of a \<open>ZodError\<close>.
\<close>

definition joinValues :: "string list \<Rightarrow> string" where
  "joinValues options =
     concat (map (\<lambda>(i, v). (if i = 0 then [] else '' | '') @ [CHR 0x27] @ v @ [CHR 0x27])
                 (zip [0 ..< length options] options))"

definition invalid_enum_value_text :: "string \<Rightarrow> string list \<Rightarrow> string" where
  "invalid_enum_value_text received options =
     ''Validation error: Invalid enum value. Expected '' @ joinValues options @
     '', received '' @ [CHR 0x27] @ received @ [CHR 0x27]"

section \<open>A backend for evaluation\<close>

text \<open>
  A stand-in for the libraries, used to evaluate the program on concrete requests: the
  configuration is found, the construction number \<open>n\<close> of a session succeeds and returns
  the handle \<open>n\<close>, the objects of the backend are the texts they serialize to, every
  account has three balances and every history has three candlesticks.
\<close>

definition test_backend :: "(string, nat, string) longport" where
  "test_backend =
     \<lparr>Period_values = [JNum 1, JNum 14],
      AdjustType_values = [JNum 0, JNum 1],
      CalcIndex_values = [JNum 0, JNum 1],
      datetime_pattern = (\<lambda>s. s \<noteq> []),
      fromError = (\<lambda>is. case is of
                           [ZodIssue (invalid_enum_value received options) p m] \<Rightarrow>
                             invalid_enum_value_text received options
                         | _ \<Rightarrow> ''Validation error''),
      InvalidDate_message = (\<lambda>y m d. ''invalid date''),
      JSON_stringify = Inr,
      Config_fromEnv = Inr ''config'',
      TradeContext_new = (\<lambda>c n. Inr n),
      QuoteContext_new = (\<lambda>c n. Inr n),
      staticInfo = (\<lambda>h symbols. Inr symbols),
      quote = (\<lambda>h symbols. Inr symbols),
      depth = (\<lambda>h s. Inr s),
      trades = (\<lambda>h s n. Inr [s]),
      intraday = (\<lambda>h s. Inr [s]),
      historyCandlesticks = (\<lambda>h q. Inr [''candle 1'', ''candle 2'', ''candle 3'']),
      capitalFlow = (\<lambda>h s. Inr [s]),
      capitalDistribution = (\<lambda>h s. Inr s),
      calcIndexes = (\<lambda>h symbols indexes. Inr symbols),
      watchlist = (\<lambda>h. Inr []),
      historyExecutions = (\<lambda>h p. Inr []),
      todayExecutions = (\<lambda>h p. Inr []),
      accountBalance = (\<lambda>h c. Inr [''HKD'', ''USD'', ''CNH'']),
      stockPositions = (\<lambda>h symbols. Inr [])\<rparr>"

section \<open>Properties of the primitive parsers\<close>

lemma digits_then_end_iff: "digits_then_end n s \<longleftrightarrow> length s = n \<and> list_all is_digit s"
  by (induction n s rule: digits_then_end.induct) auto

lemma date_regex_iff: "date_regex s \<longleftrightarrow> length s = 8 \<and> list_all is_digit s"
  by (simp add: date_regex_def digits_then_end_iff)

lemma four_digits_rest_iff:
  "four_digits_rest n s \<longleftrightarrow> (length s = n \<or> length s = n + 2) \<and> list_all is_digit s"
  by (induction n s rule: four_digits_rest.induct) (auto simp: digits_then_end_iff)

lemma time_regex_iff: "time_regex s \<longleftrightarrow> (length s = 4 \<or> length s = 6) \<and> list_all is_digit s"
  by (simp add: time_regex_def four_digits_rest_iff)

lemma digit_not_space: "is_digit c \<Longrightarrow> \<not> is_space c"
  by (auto simp: is_digit_def is_space_def digit_of_def)

lemma digit_not_sign: "is_digit c \<Longrightarrow> c \<noteq> CHR ''-'' \<and> c \<noteq> CHR ''+''"
  by (auto simp: is_digit_def digit_of_def)

lemma parseInt_digits:
  assumes "s \<noteq> []" and "list_all is_digit s"
  shows "parseInt s = Some (decimal 0 s)"
proof -
  obtain c r where s: "s = c # r" using assms(1) by (cases s) auto
  have c: "is_digit c" using assms(2) s by simp
  have t: "dropWhile is_space s = s" using s c digit_not_space by simp
  have d: "takeWhile is_digit s = s" using assms(2) by (simp add: list_all_iff)
  have u: "(case s of c # r \<Rightarrow> if c = CHR ''-'' \<or> c = CHR ''+'' then r else s | [] \<Rightarrow> s) = s"
    using s digit_not_sign[OF c] by simp
  have n: "(case s of c # _ \<Rightarrow> c = CHR ''-'' | [] \<Rightarrow> False) = False"
    using s digit_not_sign[OF c] by simp
  show ?thesis
    unfolding parseInt_def t Let_def u n d using assms(1) by simp
qed

lemma decimal_nonneg: "0 \<le> acc \<Longrightarrow> 0 \<le> decimal acc s"
  by (induction s arbitrary: acc) (auto simp: digit_of_def split: option.splits if_splits)

lemma list_all_take_drop: "list_all P s \<Longrightarrow> list_all P (take n (drop k s))"
  by (auto simp: list_all_iff dest: in_set_takeD in_set_dropD)

lemma parseInt_substring:
  assumes "list_all is_digit s" and "a < b" and "a < length s"
  shows "parseInt (substring a b s) = Some (decimal 0 (substring a b s))"
proof (rule parseInt_digits)
  show "substring a b s \<noteq> []" using assms(2,3) by (simp add: substring_def)
  show "list_all is_digit (substring a b s)"
    using assms(1) by (simp add: substring_def list_all_take_drop)
qed

lemma days_in_month_bounds: "28 \<le> days_in_month y m \<and> days_in_month y m \<le> 31"
  by (simp add: days_in_month_def)

lemma parseNaiveDate_digits:
  assumes "length s = 8" and "list_all is_digit s"
  shows "parseNaiveDate s =
     (if 1 \<le> decimal 0 (substring 4 6 s) \<and> decimal 0 (substring 4 6 s) \<le> 12 \<and>
         1 \<le> decimal 0 (substring 6 8 s) \<and> decimal 0 (substring 6 8 s) \<le> 31
      then NaiveDate_new (decimal 0 (substring 0 4 s)) (decimal 0 (substring 4 6 s))
             (decimal 0 (substring 6 8 s))
      else Inl (Message date_value_message))"
  using assms
  by (auto simp: parseNaiveDate_def date_regex_iff parseInt_substring Let_def)

lemma parseNaiveDate_take_drop:
  assumes "length s = 8" and "list_all is_digit s"
  shows "parseNaiveDate s =
     (if 1 \<le> decimal 0 (take 2 (drop 4 s)) \<and> decimal 0 (take 2 (drop 4 s)) \<le> 12 \<and>
         1 \<le> decimal 0 (take 2 (drop 6 s)) \<and> decimal 0 (take 2 (drop 6 s)) \<le> 31
      then NaiveDate_new (decimal 0 (take 4 s)) (decimal 0 (take 2 (drop 4 s)))
             (decimal 0 (take 2 (drop 6 s)))
      else Inl (Message date_value_message))"
  using parseNaiveDate_digits[OF assms] by (simp add: substring_def)

lemma parseNaiveDate_format:
  "\<not> (length s = 8 \<and> list_all is_digit s) \<Longrightarrow> parseNaiveDate s = Inl (Message date_format_message)"
  by (simp add: parseNaiveDate_def date_regex_iff)

lemma date_messages_distinct: "date_format_message \<noteq> date_value_message"
  by (simp add: date_format_message_def date_value_message_def)

lemma NaiveDate_new_Inr:
  "NaiveDate_new y m d = Inr r \<longleftrightarrow>
     r = \<lparr>year = y, month = m, day = d\<rparr> \<and> 1 \<le> m \<and> m \<le> 12 \<and> 1 \<le> d \<and> d \<le> days_in_month y m"
  by (auto simp: NaiveDate_new_def)

lemma parseNaiveDate_20231016:
  "parseNaiveDate ''20231016'' = Inr \<lparr>year = 2023, month = 10, day = 16\<rparr>"
  by (simp add: parseNaiveDate_take_drop is_digit_def digit_of_def NaiveDate_new_def
        days_in_month_def)

lemma parseNaiveDate_20231020:
  "parseNaiveDate ''20231020'' = Inr \<lparr>year = 2023, month = 10, day = 20\<rparr>"
  by (simp add: parseNaiveDate_take_drop is_digit_def digit_of_def NaiveDate_new_def
        days_in_month_def)

text \<open>
  Claim C5, as the code has it. \<open>parseNaiveDate\<close> returns a date exactly for the strings of
  eight ASCII digits whose month (the fifth and sixth digit) is between 1 and 12 and whose
  day (the last two digits) is a day of that month in the year of the first four digits, and
  the fields of the date are then these three numbers. A string that is not eight digits
  fails with the message for an invalid format; eight digits with a month outside 1 to 12
  or a day outside 1 to 31 fail with the message for an invalid value; eight digits in
  these ranges whose day the month does not have fail with the error of the constructor of
  the date. The three errors differ.
\<close>

theorem parseNaiveDate_spec:
  "(parseNaiveDate s = Inr r \<longleftrightarrow>
      length s = 8 \<and> list_all is_digit s \<and>
      r = \<lparr>year = decimal 0 (take 4 s), month = decimal 0 (take 2 (drop 4 s)),
           day = decimal 0 (take 2 (drop 6 s))\<rparr> \<and>
      1 \<le> month r \<and> month r \<le> 12 \<and> 1 \<le> day r \<and> day r \<le> days_in_month (year r) (month r)) \<and>
   (\<not> (length s = 8 \<and> list_all is_digit s) \<longrightarrow>
      parseNaiveDate s = Inl (Message date_format_message)) \<and>
   (length s = 8 \<and> list_all is_digit s \<and>
      \<not> (1 \<le> decimal 0 (take 2 (drop 4 s)) \<and> decimal 0 (take 2 (drop 4 s)) \<le> 12 \<and>
         1 \<le> decimal 0 (take 2 (drop 6 s)) \<and> decimal 0 (take 2 (drop 6 s)) \<le> 31) \<longrightarrow>
      parseNaiveDate s = Inl (Message date_value_message)) \<and>
   (length s = 8 \<and> list_all is_digit s \<and>
      1 \<le> decimal 0 (take 2 (drop 4 s)) \<and> decimal 0 (take 2 (drop 4 s)) \<le> 12 \<and>
      1 \<le> decimal 0 (take 2 (drop 6 s)) \<and> decimal 0 (take 2 (drop 6 s)) \<le> 31 \<and>
      days_in_month (decimal 0 (take 4 s)) (decimal 0 (take 2 (drop 4 s))) <
        decimal 0 (take 2 (drop 6 s)) \<longrightarrow>
      parseNaiveDate s =
        Inl (InvalidDate (decimal 0 (take 4 s)) (decimal 0 (take 2 (drop 4 s)))
               (decimal 0 (take 2 (drop 6 s))))) \<and>
   date_format_message \<noteq> date_value_message \<and>
   28 \<le> days_in_month y m \<and> days_in_month y m \<le> 31 \<and>
   parseNaiveDate ''2023101'' = Inl (Message date_format_message) \<and>
   parseNaiveDate ''20231301'' = Inl (Message date_value_message) \<and>
   parseNaiveDate ''20230230'' = Inl (InvalidDate 2023 2 30) \<and>
   parseNaiveDate ''20240229'' = Inr \<lparr>year = 2024, month = 2, day = 29\<rparr>"
proof -
  have iff: "parseNaiveDate s = Inr r \<longleftrightarrow>
      length s = 8 \<and> list_all is_digit s \<and>
      r = \<lparr>year = decimal 0 (take 4 s), month = decimal 0 (take 2 (drop 4 s)),
           day = decimal 0 (take 2 (drop 6 s))\<rparr> \<and>
      1 \<le> month r \<and> month r \<le> 12 \<and> 1 \<le> day r \<and> day r \<le> days_in_month (year r) (month r)"
  proof (cases "length s = 8 \<and> list_all is_digit s")
    case True
    show ?thesis
    proof (cases "1 \<le> decimal 0 (take 2 (drop 4 s)) \<and> decimal 0 (take 2 (drop 4 s)) \<le> 12 \<and>
         1 \<le> decimal 0 (take 2 (drop 6 s)) \<and> decimal 0 (take 2 (drop 6 s)) \<le> 31")
      case inrange: True
      have "parseNaiveDate s = NaiveDate_new (decimal 0 (take 4 s))
          (decimal 0 (take 2 (drop 4 s))) (decimal 0 (take 2 (drop 6 s)))"
        using parseNaiveDate_take_drop[of s, unfolded if_P[OF inrange]] True by blast
      then show ?thesis using True by (auto simp: NaiveDate_new_Inr)
    next
      case False
      have "parseNaiveDate s = Inl (Message date_value_message)"
        using parseNaiveDate_take_drop[of s, unfolded if_not_P[OF False]] True by blast
      moreover have "decimal 0 (take 2 (drop 6 s)) \<le> days_in_month y' m' \<Longrightarrow>
          decimal 0 (take 2 (drop 6 s)) \<le> 31" for y' m'
        using days_in_month_bounds[of y' m'] by linarith
      ultimately show ?thesis using False by auto
    qed
  next
    case False
    then show ?thesis using parseNaiveDate_format[of s] by auto
  qed
  have fmt: "\<not> (length s = 8 \<and> list_all is_digit s) \<longrightarrow>
      parseNaiveDate s = Inl (Message date_format_message)"
    using parseNaiveDate_format by blast
  have val: "length s = 8 \<and> list_all is_digit s \<and>
      \<not> (1 \<le> decimal 0 (take 2 (drop 4 s)) \<and> decimal 0 (take 2 (drop 4 s)) \<le> 12 \<and>
         1 \<le> decimal 0 (take 2 (drop 6 s)) \<and> decimal 0 (take 2 (drop 6 s)) \<le> 31) \<longrightarrow>
      parseNaiveDate s = Inl (Message date_value_message)"
  proof
    assume a: "length s = 8 \<and> list_all is_digit s \<and>
      \<not> (1 \<le> decimal 0 (take 2 (drop 4 s)) \<and> decimal 0 (take 2 (drop 4 s)) \<le> 12 \<and>
         1 \<le> decimal 0 (take 2 (drop 6 s)) \<and> decimal 0 (take 2 (drop 6 s)) \<le> 31)"
    then have n: "\<not> (1 \<le> decimal 0 (take 2 (drop 4 s)) \<and> decimal 0 (take 2 (drop 4 s)) \<le> 12 \<and>
         1 \<le> decimal 0 (take 2 (drop 6 s)) \<and> decimal 0 (take 2 (drop 6 s)) \<le> 31)" by blast
    show "parseNaiveDate s = Inl (Message date_value_message)"
      using parseNaiveDate_take_drop[of s, unfolded if_not_P[OF n]] a by blast
  qed
  have cal: "length s = 8 \<and> list_all is_digit s \<and>
      1 \<le> decimal 0 (take 2 (drop 4 s)) \<and> decimal 0 (take 2 (drop 4 s)) \<le> 12 \<and>
      1 \<le> decimal 0 (take 2 (drop 6 s)) \<and> decimal 0 (take 2 (drop 6 s)) \<le> 31 \<and>
      days_in_month (decimal 0 (take 4 s)) (decimal 0 (take 2 (drop 4 s))) <
        decimal 0 (take 2 (drop 6 s)) \<longrightarrow>
      parseNaiveDate s =
        Inl (InvalidDate (decimal 0 (take 4 s)) (decimal 0 (take 2 (drop 4 s)))
               (decimal 0 (take 2 (drop 6 s))))"
  proof
    assume a: "length s = 8 \<and> list_all is_digit s \<and>
      1 \<le> decimal 0 (take 2 (drop 4 s)) \<and> decimal 0 (take 2 (drop 4 s)) \<le> 12 \<and>
      1 \<le> decimal 0 (take 2 (drop 6 s)) \<and> decimal 0 (take 2 (drop 6 s)) \<le> 31 \<and>
      days_in_month (decimal 0 (take 4 s)) (decimal 0 (take 2 (drop 4 s))) <
        decimal 0 (take 2 (drop 6 s))"
    then have r: "1 \<le> decimal 0 (take 2 (drop 4 s)) \<and> decimal 0 (take 2 (drop 4 s)) \<le> 12 \<and>
         1 \<le> decimal 0 (take 2 (drop 6 s)) \<and> decimal 0 (take 2 (drop 6 s)) \<le> 31" by blast
    have "parseNaiveDate s = NaiveDate_new (decimal 0 (take 4 s))
          (decimal 0 (take 2 (drop 4 s))) (decimal 0 (take 2 (drop 6 s)))"
      using parseNaiveDate_take_drop[of s, unfolded if_P[OF r]] a by blast
    also have "\<dots> = Inl (InvalidDate (decimal 0 (take 4 s)) (decimal 0 (take 2 (drop 4 s)))
               (decimal 0 (take 2 (drop 6 s))))"
      using a unfolding NaiveDate_new_def by (simp only: not_le[symmetric] if_False simp_thms)
    finally show "parseNaiveDate s =
        Inl (InvalidDate (decimal 0 (take 4 s)) (decimal 0 (take 2 (drop 4 s)))
               (decimal 0 (take 2 (drop 6 s))))" .
  qed
  have e1: "parseNaiveDate ''2023101'' = Inl (Message date_format_message)"
    by (simp add: parseNaiveDate_format)
  have e2: "parseNaiveDate ''20231301'' = Inl (Message date_value_message)"
    by (simp add: parseNaiveDate_take_drop is_digit_def digit_of_def)
  have e3: "parseNaiveDate ''20230230'' = Inl (InvalidDate 2023 2 30)"
    by (simp add: parseNaiveDate_take_drop is_digit_def digit_of_def NaiveDate_new_def
          days_in_month_def leap_year_def)
  have e4: "parseNaiveDate ''20240229'' = Inr \<lparr>year = 2024, month = 2, day = 29\<rparr>"
    by (simp add: parseNaiveDate_take_drop is_digit_def digit_of_def NaiveDate_new_def
          days_in_month_def leap_year_def)
  from iff fmt val cal date_messages_distinct days_in_month_bounds[of y m] e1 e2 e3 e4
  show ?thesis by blast
qed

theorem parseNaiveDate_spec_witness:
  "parseNaiveDate ''20231016'' = Inr \<lparr>year = 2023, month = 10, day = 16\<rparr> \<and>
   parseNaiveDate ''2023-10-16'' = Inl (Message date_format_message) \<and>
   parseNaiveDate ''20231032'' = Inl (Message date_value_message) \<and>
   parseNaiveDate ''20230431'' = Inl (InvalidDate 2023 4 31)"
proof (intro conjI)
  have a: "parseNaiveDate ''20231016'' = Inr \<lparr>year = 2023, month = 10, day = 16\<rparr> \<longleftrightarrow>
      length ''20231016'' = 8 \<and> list_all is_digit ''20231016'' \<and>
      \<lparr>year = 2023, month = 10, day = 16\<rparr> =
        \<lparr>year = decimal 0 (take 4 ''20231016''), month = decimal 0 (take 2 (drop 4 ''20231016'')),
         day = decimal 0 (take 2 (drop 6 ''20231016''))\<rparr> \<and>
      1 \<le> month \<lparr>year = 2023, month = 10, day = 16\<rparr> \<and>
      month \<lparr>year = 2023, month = 10, day = 16\<rparr> \<le> 12 \<and>
      1 \<le> day \<lparr>year = 2023, month = 10, day = 16\<rparr> \<and>
      day \<lparr>year = 2023, month = 10, day = 16\<rparr>
        \<le> days_in_month (year \<lparr>year = 2023, month = 10, day = 16\<rparr>)
             (month \<lparr>year = 2023, month = 10, day = 16\<rparr>)"
    using parseNaiveDate_spec[of "''20231016''" "\<lparr>year = 2023, month = 10, day = 16\<rparr>"]
    by (rule conjunct1)
  show "parseNaiveDate ''20231016'' = Inr \<lparr>year = 2023, month = 10, day = 16\<rparr>"
    unfolding a by (simp add: is_digit_def digit_of_def days_in_month_def)
  have b: "\<not> (length ''2023-10-16'' = 8 \<and> list_all is_digit ''2023-10-16'') \<longrightarrow>
      parseNaiveDate ''2023-10-16'' = Inl (Message date_format_message)"
    using parseNaiveDate_spec[of "''2023-10-16''"] by blast
  then show "parseNaiveDate ''2023-10-16'' = Inl (Message date_format_message)" by simp
  have c: "length ''20231032'' = 8 \<and> list_all is_digit ''20231032'' \<and>
      \<not> (1 \<le> decimal 0 (take 2 (drop 4 ''20231032'')) \<and> decimal 0 (take 2 (drop 4 ''20231032'')) \<le> 12 \<and>
         1 \<le> decimal 0 (take 2 (drop 6 ''20231032'')) \<and> decimal 0 (take 2 (drop 6 ''20231032'')) \<le> 31) \<longrightarrow>
      parseNaiveDate ''20231032'' = Inl (Message date_value_message)"
    using parseNaiveDate_spec[of "''20231032''"] by blast
  then show "parseNaiveDate ''20231032'' = Inl (Message date_value_message)"
    by (simp add: is_digit_def digit_of_def)
  have d: "length ''20230431'' = 8 \<and> list_all is_digit ''20230431'' \<and>
      1 \<le> decimal 0 (take 2 (drop 4 ''20230431'')) \<and> decimal 0 (take 2 (drop 4 ''20230431'')) \<le> 12 \<and>
      1 \<le> decimal 0 (take 2 (drop 6 ''20230431'')) \<and> decimal 0 (take 2 (drop 6 ''20230431'')) \<le> 31 \<and>
      days_in_month (decimal 0 (take 4 ''20230431'')) (decimal 0 (take 2 (drop 4 ''20230431''))) <
        decimal 0 (take 2 (drop 6 ''20230431'')) \<longrightarrow>
      parseNaiveDate ''20230431'' =
        Inl (InvalidDate (decimal 0 (take 4 ''20230431'')) (decimal 0 (take 2 (drop 4 ''20230431'')))
               (decimal 0 (take 2 (drop 6 ''20230431''))))"
    using parseNaiveDate_spec[of "''20230431''"] by blast
  then show "parseNaiveDate ''20230431'' = Inl (InvalidDate 2023 4 31)"
    by (simp add: is_digit_def digit_of_def days_in_month_def)
qed

text \<open>
  The claim as it is written also says that \<open>20230230\<close> is accepted. It is not: the range
  tests of \<open>parseNaiveDate\<close> pass and the constructor of the date throws.
\<close>

theorem parseNaiveDate_spec_counterexample:
  "parseNaiveDate ''20230230'' \<noteq> Inr \<lparr>year = 2023, month = 2, day = 30\<rparr> \<and>
   parseNaiveDate ''20230230'' = Inl (InvalidDate 2023 2 30)"
  by (simp add: parseNaiveDate_take_drop is_digit_def digit_of_def NaiveDate_new_def
        days_in_month_def leap_year_def)

lemma parseTime_digits:
  assumes "length s = 4 \<or> length s = 6" and "list_all is_digit s"
  shows "parseTime s =
     (if decimal 0 (substring 0 2 s) \<le> 23 \<and> decimal 0 (substring 2 4 s) \<le> 59 \<and>
         (length s = 6 \<longrightarrow> decimal 0 (substring 4 6 s) \<le> 59)
      then Inr \<lparr>hour = decimal 0 (substring 0 2 s), minute = decimal 0 (substring 2 4 s),
                second = (if length s = 6 then decimal 0 (substring 4 6 s) else 0)\<rparr>
      else Inl (Message time_value_message))"
proof -
  have nn: "\<And>a b. \<not> decimal 0 (substring a b s) < 0"
    by (simp add: decimal_nonneg not_less)
  have re: "time_regex s" using assms by (simp add: time_regex_iff)
  have h: "parseInt (substring 0 2 s) = Some (decimal 0 (substring 0 2 s))"
    using assms by (intro parseInt_substring) auto
  have m: "parseInt (substring 2 4 s) = Some (decimal 0 (substring 2 4 s))"
    using assms by (intro parseInt_substring) auto
  from assms(1) show ?thesis
  proof
    assume l: "length s = 4"
    show ?thesis by (simp add: parseTime_def re h m l Let_def nn not_le)
  next
    assume l: "length s = 6"
    have sec: "parseInt (substring 4 6 s) = Some (decimal 0 (substring 4 6 s))"
      using assms(2) l by (intro parseInt_substring) auto
    show ?thesis by (simp add: parseTime_def re h m sec l Let_def nn not_le)
  qed
qed

lemma parseTime_format:
  "\<not> ((length s = 4 \<or> length s = 6) \<and> list_all is_digit s) \<Longrightarrow>
   parseTime s = Inl (Message time_format_message)"
  by (simp add: parseTime_def time_regex_iff)

lemma time_messages_distinct: "time_format_message \<noteq> time_value_message"
  by (simp add: time_format_message_def time_value_message_def)


lemma parseTime_4:
  assumes "length s = 4" and "list_all is_digit s"
  shows "parseTime s =
     (if decimal 0 (take 2 s) \<le> 23 \<and> decimal 0 (take 2 (drop 2 s)) \<le> 59
      then Inr \<lparr>hour = decimal 0 (take 2 s), minute = decimal 0 (take 2 (drop 2 s)), second = 0\<rparr>
      else Inl (Message time_value_message))"
  using parseTime_digits[of s] assms by (simp add: substring_def)

lemma parseTime_6:
  assumes "length s = 6" and "list_all is_digit s"
  shows "parseTime s =
     (if decimal 0 (take 2 s) \<le> 23 \<and> decimal 0 (take 2 (drop 2 s)) \<le> 59 \<and>
         decimal 0 (take 2 (drop 4 s)) \<le> 59
      then Inr \<lparr>hour = decimal 0 (take 2 s), minute = decimal 0 (take 2 (drop 2 s)),
                second = decimal 0 (take 2 (drop 4 s))\<rparr>
      else Inl (Message time_value_message))"
  using parseTime_digits[of s] assms by (simp add: substring_def)

text \<open>
  Claim C6. \<open>parseTime\<close> returns a time exactly for the strings of four or six ASCII digits
  whose hour is at most 23 and whose minute and second (when there are six digits) are at
  most 59; four digits give the second 0. A string of digits of the right length with a
  component out of range fails with the message for an invalid value, any other string with
  the message for an invalid format.
\<close>

theorem parseTime_spec:
  "(parseTime s = Inr t \<longleftrightarrow>
      (length s = 4 \<or> length s = 6) \<and> list_all is_digit s \<and>
      t = \<lparr>hour = decimal 0 (take 2 s), minute = decimal 0 (take 2 (drop 2 s)),
           second = (if length s = 6 then decimal 0 (take 2 (drop 4 s)) else 0)\<rparr> \<and>
      0 \<le> hour t \<and> hour t \<le> 23 \<and> 0 \<le> minute t \<and> minute t \<le> 59 \<and>
      0 \<le> second t \<and> second t \<le> 59) \<and>
   (\<not> ((length s = 4 \<or> length s = 6) \<and> list_all is_digit s) \<longrightarrow>
      parseTime s = Inl (Message time_format_message)) \<and>
   ((length s = 4 \<or> length s = 6) \<and> list_all is_digit s \<and>
      \<not> (decimal 0 (take 2 s) \<le> 23 \<and> decimal 0 (take 2 (drop 2 s)) \<le> 59 \<and>
         (length s = 6 \<longrightarrow> decimal 0 (take 2 (drop 4 s)) \<le> 59)) \<longrightarrow>
      parseTime s = Inl (Message time_value_message)) \<and>
   time_format_message \<noteq> time_value_message \<and>
   parseTime ''0935'' = Inr \<lparr>hour = 9, minute = 35, second = 0\<rparr> \<and>
   parseTime ''093512'' = Inr \<lparr>hour = 9, minute = 35, second = 12\<rparr> \<and>
   parseTime ''2460'' = Inl (Message time_value_message) \<and>
   parseTime ''99999'' = Inl (Message time_format_message)"
proof -
  have nn: "\<And>x. 0 \<le> decimal 0 x"
    by (simp add: decimal_nonneg)
  consider (four) "length s = 4" "list_all is_digit s"
    | (six) "length s = 6" "list_all is_digit s"
    | (bad) "\<not> ((length s = 4 \<or> length s = 6) \<and> list_all is_digit s)"
    by blast
  then have general:
    "(parseTime s = Inr t \<longleftrightarrow>
      (length s = 4 \<or> length s = 6) \<and> list_all is_digit s \<and>
      t = \<lparr>hour = decimal 0 (take 2 s), minute = decimal 0 (take 2 (drop 2 s)),
           second = (if length s = 6 then decimal 0 (take 2 (drop 4 s)) else 0)\<rparr> \<and>
      0 \<le> hour t \<and> hour t \<le> 23 \<and> 0 \<le> minute t \<and> minute t \<le> 59 \<and>
      0 \<le> second t \<and> second t \<le> 59) \<and>
     ((length s = 4 \<or> length s = 6) \<and> list_all is_digit s \<and>
      \<not> (decimal 0 (take 2 s) \<le> 23 \<and> decimal 0 (take 2 (drop 2 s)) \<le> 59 \<and>
         (length s = 6 \<longrightarrow> decimal 0 (take 2 (drop 4 s)) \<le> 59)) \<longrightarrow>
      parseTime s = Inl (Message time_value_message))"
  proof cases
    case four
    have "parseTime s = Inr t \<longleftrightarrow>
        t = \<lparr>hour = decimal 0 (take 2 s), minute = decimal 0 (take 2 (drop 2 s)), second = 0\<rparr> \<and>
        decimal 0 (take 2 s) \<le> 23 \<and> decimal 0 (take 2 (drop 2 s)) \<le> 59"
      by (auto simp: parseTime_4[OF four])
    then show ?thesis using four nn by (auto simp: parseTime_4[OF four])
  next
    case six
    have "parseTime s = Inr t \<longleftrightarrow>
        t = \<lparr>hour = decimal 0 (take 2 s), minute = decimal 0 (take 2 (drop 2 s)),
             second = decimal 0 (take 2 (drop 4 s))\<rparr> \<and>
        decimal 0 (take 2 s) \<le> 23 \<and> decimal 0 (take 2 (drop 2 s)) \<le> 59 \<and>
        decimal 0 (take 2 (drop 4 s)) \<le> 59"
      by (auto simp: parseTime_6[OF six])
    then show ?thesis using six nn by (auto simp: parseTime_6[OF six])
  next
    case bad
    then show ?thesis using parseTime_format[OF bad] by auto
  qed
  have fmt: "\<not> ((length s = 4 \<or> length s = 6) \<and> list_all is_digit s) \<longrightarrow>
      parseTime s = Inl (Message time_format_message)"
    using parseTime_format by blast
  have e1: "parseTime ''0935'' = Inr \<lparr>hour = 9, minute = 35, second = 0\<rparr>"
    by (simp add: parseTime_4 is_digit_def digit_of_def)
  have e2: "parseTime ''093512'' = Inr \<lparr>hour = 9, minute = 35, second = 12\<rparr>"
    by (simp add: parseTime_6 is_digit_def digit_of_def)
  have e3: "parseTime ''2460'' = Inl (Message time_value_message)"
    by (simp add: parseTime_4 is_digit_def digit_of_def)
  have e4: "parseTime ''99999'' = Inl (Message time_format_message)"
    by (simp add: parseTime_format)
  from general fmt time_messages_distinct e1 e2 e3 e4 show ?thesis by blast
qed

theorem parseTime_spec_witness:
  "parseTime ''2359'' = Inr \<lparr>hour = 23, minute = 59, second = 0\<rparr> \<and>
   parseTime ''09:35'' = Inl (Message time_format_message) \<and>
   parseTime ''235960'' = Inl (Message time_value_message)"
proof (intro conjI)
  have a: "parseTime ''2359'' = Inr \<lparr>hour = 23, minute = 59, second = 0\<rparr> \<longleftrightarrow>
      (length ''2359'' = 4 \<or> length ''2359'' = 6) \<and> list_all is_digit ''2359'' \<and>
      \<lparr>hour = 23, minute = 59, second = 0\<rparr> =
        \<lparr>hour = decimal 0 (take 2 ''2359''), minute = decimal 0 (take 2 (drop 2 ''2359'')),
         second = (if length ''2359'' = 6 then decimal 0 (take 2 (drop 4 ''2359'')) else 0)\<rparr> \<and>
      0 \<le> hour \<lparr>hour = 23, minute = 59, second = 0\<rparr> \<and> hour \<lparr>hour = 23, minute = 59, second = 0\<rparr> \<le> 23 \<and>
      0 \<le> minute \<lparr>hour = 23, minute = 59, second = 0\<rparr> \<and> minute \<lparr>hour = 23, minute = 59, second = 0\<rparr> \<le> 59 \<and>
      0 \<le> second \<lparr>hour = 23, minute = 59, second = 0\<rparr> \<and> second \<lparr>hour = 23, minute = 59, second = 0\<rparr> \<le> 59"
    using parseTime_spec[of "''2359''" "\<lparr>hour = 23, minute = 59, second = 0\<rparr>"] by (rule conjunct1)
  show "parseTime ''2359'' = Inr \<lparr>hour = 23, minute = 59, second = 0\<rparr>"
    unfolding a by (simp add: is_digit_def digit_of_def)
  have b: "\<not> ((length ''09:35'' = 4 \<or> length ''09:35'' = 6) \<and> list_all is_digit ''09:35'') \<longrightarrow>
      parseTime ''09:35'' = Inl (Message time_format_message)"
    using parseTime_spec[of "''09:35''"] by blast
  then show "parseTime ''09:35'' = Inl (Message time_format_message)" by simp
  have c: "(length ''235960'' = 4 \<or> length ''235960'' = 6) \<and> list_all is_digit ''235960'' \<and>
      \<not> (decimal 0 (take 2 ''235960'') \<le> 23 \<and> decimal 0 (take 2 (drop 2 ''235960'')) \<le> 59 \<and>
         (length ''235960'' = 6 \<longrightarrow> decimal 0 (take 2 (drop 4 ''235960'')) \<le> 59)) \<longrightarrow>
      parseTime ''235960'' = Inl (Message time_value_message)"
    using parseTime_spec[of "''235960''"] by blast
  then show "parseTime ''235960'' = Inl (Message time_value_message)"
    by (simp add: is_digit_def digit_of_def)
qed

section \<open>Properties of the schemas\<close>

lemma under_Ok: "under k r = Ok x \<longleftrightarrow> r = Ok x"
  by (cases r) (simp_all add: under_def)

lemma field_Ok: "field k sch kv = Ok x \<longleftrightarrow> sch (map_of kv k) = Ok x"
  by (simp add: field_def under_Ok)

lemma both_Ok: "both f x = Ok y \<longleftrightarrow> (\<exists>g a. f = Ok g \<and> x = Ok a \<and> y = g a)"
  by (cases f; cases x) auto


lemma z_refine_Ok: "z_refine check p sch v = Ok x \<longleftrightarrow> sch v = Ok x \<and> check x"
  by (cases "sch v") (auto simp: z_refine_def)

lemma z_object_Ok: "z_object props v = Ok x \<longleftrightarrow> (\<exists>kv. v = Some (JObj kv) \<and> props kv = Ok x)"
  by (auto simp: z_object_def split: option.splits json.splits)

lemma z_transform_Ok:
  "z_transform f sch v = Ok y \<longleftrightarrow> (\<exists>x. sch v = Ok x \<and> f x = Inr y)"
  by (cases "sch v") (auto simp: z_transform_def split: sum.splits)



lemma candlestick_object_Ok:
  assumes "candlestick_object periods adjusts (Some (JObj kv)) = Ok params"
  shows "SymbolSchema (map_of kv ''symbol'') = Ok (symbol params)"
    and "z_literals periods (map_of kv ''period'') = Ok (period params)"
    and "z_literals adjusts (map_of kv ''adjust_type'') = Ok (adjust_type params)"
    and "z_literals [JNum 1, JNum 2] (map_of kv ''query_type'') = Ok (query_type params)"
    and "date_request_schema (map_of kv ''date_request'') = Ok (date_request params)"
    and "offset_request_schema (map_of kv ''offset_request'') = Ok (offset_request params)"
  using assms
  by (auto simp: candlestick_object_def z_object_def both_Ok field_Ok)

lemma offset_request_transform_defined: "offset_request_transform value = Inr r \<Longrightarrow> r \<noteq> None"
  by (auto simp: offset_request_transform_def split: option.splits if_splits sum.splits)

lemma offset_request_schema_defined: "offset_request_schema v = Ok r \<Longrightarrow> r \<noteq> None"
  by (auto simp: offset_request_schema_def z_transform_Ok dest: offset_request_transform_defined)

lemma offset_request_schema_absent:
  "offset_request_schema None = Ok (Some \<lparr>forward = False, datetime = None, count = None\<rparr>)"
  by (simp add: offset_request_schema_def z_transform_def z_optional_def offset_request_transform_def)




lemma schema_Ok:
  "QuoteHistoryCandlesticksSchema periods adjusts args = Ok params \<longleftrightarrow>
     candlestick_object periods adjusts args = Ok params \<and> candlestick_refinement params"
  by (simp add: QuoteHistoryCandlesticksSchema_def z_refine_Ok)

lemma candlestick_object_args:
  "candlestick_object periods adjusts args = Ok params \<Longrightarrow> \<exists>kv. args = Some (JObj kv)"
  by (auto simp: candlestick_object_def z_object_Ok)

lemmas schema_eval =
  QuoteHistoryCandlesticksSchema_def candlestick_object_def z_refine_def z_object_def
  field_def under_def SymbolSchema_def z_string_def symbol_regex_def is_upper_def is_digit_def
  digit_of_def z_literals_def date_request_schema_def z_optional_def offset_request_schema_def
  z_transform_def offset_request_transform_def candlestick_refinement_def
  offset_object_schema_def z_default_def z_int_range_def date_request_transform_def

section \<open>Properties of the handlers and of the dispatcher\<close>

lemma and_then_Inl: "m s = (Inl e, s') \<Longrightarrow> and_then m f s = (Inl e, s')"
  by (simp add: and_then_def)

lemma and_then_Inr: "m s = (Inr x, s') \<Longrightarrow> and_then m f s = f x s'"
  by (simp add: and_then_def)

lemma step_eq: "step v s = (r, s') \<longleftrightarrow> v = r \<and> s' = s"
  by (auto simp: step_def)



lemma handleErrorResult_ZodError:
  "handleErrorResult sdk (ZodError is) =
     Inr \<lparr>content = [TextBlock (fromError sdk is)], isError = Some True\<rparr>"
  by (simp add: handleErrorResult_def)

lemma TOOLS_CONFIG_func_try:
  "TOOLS_CONFIG_func sdk tool args s = try_catch sdk (try_block sdk tool args) s"
  by (cases tool)
     (simp_all add: quoteStaticInfo_def quoteRealtimeInfo_def quoteDepth_def
        quoteTrades_def quoteIntraday_def quoteHistoryCandlesticks_def
        quoteCapitalFlow_def quoteCapitalDistribution_def quoteCalcIndex_def
        quoteWatchList_def tradeHistoryExecutions_def tradeTodayExecutions_def
        tradeAccountBalance_def tradeStockPositions_def)

lemma ToolNameSchema_value: "ToolNameSchema (Tool_value tool) = Inr tool"
  by (cases tool) (simp_all add: ToolNameSchema_def Tool_members_def)

lemma ToolNameSchema_unknown:
  assumes "name \<notin> set (map Tool_value Tool_members)"
  shows "ToolNameSchema name =
           Inl [ZodIssue (invalid_enum_value name (map Tool_value Tool_members)) [] None]"
proof -
  have "find (\<lambda>t. Tool_value t = name) Tool_members = None"
    using assms by (auto simp: find_None_iff)
  then show ?thesis by (simp add: ToolNameSchema_def)
qed


lemma stringify_all_blocks:
  "stringify_all f items = Inr bs \<Longrightarrow>
     length bs = length items \<and>
     (\<forall>i < length items. \<exists>t. f (items ! i) = Inr t \<and> bs ! i = TextBlock t)"
proof (induction items arbitrary: bs)
  case Nil
  then show ?case by simp
next
  case (Cons x xs)
  from Cons.prems obtain t bs' where t: "f x = Inr t" and r: "stringify_all f xs = Inr bs'"
    and bs: "bs = TextBlock t # bs'"
    by (auto split: sum.splits)
  from Cons.IH[OF r] have l: "length bs' = length xs"
    and n: "\<forall>i < length xs. \<exists>t. f (xs ! i) = Inr t \<and> bs' ! i = TextBlock t" by simp_all
  show ?case
  proof (intro conjI allI impI)
    show "length bs = length (x # xs)" using l bs by simp
    fix i assume "i < length (x # xs)"
    then show "\<exists>t. f ((x # xs) ! i) = Inr t \<and> bs ! i = TextBlock t"
      using t n bs by (cases i) simp_all
  qed
qed

lemma stringify_all_total:
  "\<forall>x \<in> set items. \<exists>t. f x = Inr t \<Longrightarrow> \<exists>bs. stringify_all f items = Inr bs"
  by (induction items) auto

lemma stringify_elements_total:
  "\<forall>x \<in> set items. \<exists>t. f x = Inr t \<Longrightarrow> \<exists>ts. stringify_elements f items = Inr ts"
  by (induction items) auto

lemma spread_blocks:
  "handleSuccessResult sdk (map Object items) = Inr result \<Longrightarrow> one_block_per_item sdk items result"
  using stringify_all_blocks[of "stringify sdk" "map Object items"]
  by (auto simp: handleSuccessResult_def one_block_per_item_def stringify_def split: sum.splits)

lemma spread_total:
  assumes "\<forall>x \<in> set items. \<exists>t. JSON_stringify sdk x = Inr t"
  shows "\<exists>result. handleSuccessResult sdk (map Object items) = Inr result \<and>
                  one_block_per_item sdk items result"
proof -
  have "\<forall>v \<in> set (map Object items). \<exists>t. stringify sdk v = Inr t"
    using assms by (auto simp: stringify_def)
  from stringify_all_total[OF this] obtain bs
    where "stringify_all (stringify sdk) (map Object items) = Inr bs" by blast
  then have "handleSuccessResult sdk (map Object items) = Inr \<lparr>content = bs, isError = None\<rparr>"
    by (simp add: handleSuccessResult_def)
  then show ?thesis using spread_blocks by blast
qed

lemma single_total:
  assumes "\<exists>t. JSON_stringify sdk item = Inr t"
  shows "\<exists>result. handleSuccessResult sdk [Object item] = Inr result \<and>
                  one_block_per_item sdk [item] result"
  using spread_total[of "[item]" sdk] assms by simp

lemma array_blocks:
  "handleSuccessResult sdk [Array items] = Inr result \<Longrightarrow>
   one_block_for_array sdk items result \<and> length (content result) = 1"
  by (auto simp: handleSuccessResult_def one_block_for_array_def split: sum.splits)

lemma array_total:
  assumes "\<forall>x \<in> set items. \<exists>t. JSON_stringify sdk x = Inr t"
  shows "\<exists>result. handleSuccessResult sdk [Array items] = Inr result \<and>
                  one_block_for_array sdk items result \<and> length (content result) = 1"
proof -
  from stringify_elements_total[OF assms] obtain ts
    where "stringify_elements (JSON_stringify sdk) items = Inr ts" by blast
  then have "\<exists>result. handleSuccessResult sdk [Array items] = Inr result"
    by (simp add: handleSuccessResult_def stringify_def)
  then show ?thesis using array_blocks by blast
qed

lemma try_catch_Inr: "body s = (Inr r, s') \<Longrightarrow> try_catch sdk body s = (Inr r, s')"
  by (simp add: try_catch_def)

lemma try_catch_Inl: "body s = (Inl e, s') \<Longrightarrow> try_catch sdk body s = (handleErrorResult sdk e, s')"
  by (simp add: try_catch_def)


lemma staged_success:
  assumes "validated = Inr params" and "session s = (Inr ctx, s')"
    and "call ctx params = Inr result"
    and "handleSuccessResult sdk (values result) = Inr r"
  shows "try_catch sdk
            (and_then (step validated) (\<lambda>params.
             and_then session (\<lambda>ctx.
             and_then (step (call ctx params)) (\<lambda>result.
             step (handleSuccessResult sdk (values result)))))) s = (Inr r, s')"
  using assms by (simp add: try_catch_def and_then_def step_def)


lemma sublist_middle: "sublist name (a @ name @ b)"
  by (simp add: sublist_appendI)















lemma quoteStaticInfo_blocks:
  "(\<forall>params ctx items.
      parse (QuoteStaticInfoSchema args) = Inr params \<and>
      getQuoteContext sdk s = (Inr ctx, s') \<and> staticInfo sdk ctx params = Inr items \<and>
      (\<forall>x \<in> set items. \<exists>t. JSON_stringify sdk x = Inr t) \<longrightarrow>
      (\<exists>result. quoteStaticInfo sdk args s = (Inr result, s') \<and>
                one_block_per_item sdk items result))"
proof (intro allI impI)
  fix params ctx items
  assume a: "parse (QuoteStaticInfoSchema args) = Inr params \<and>
      getQuoteContext sdk s = (Inr ctx, s') \<and> staticInfo sdk ctx params = Inr items \<and>
      (\<forall>x \<in> set items. \<exists>t. JSON_stringify sdk x = Inr t)"
  then obtain r where r: "handleSuccessResult sdk (map Object items) = Inr r"
      and b: "one_block_per_item sdk items r"
    using spread_total[of items sdk] by blast
  have "quoteStaticInfo sdk args s = (Inr r, s')"
    unfolding quoteStaticInfo_def quoteStaticInfo_try_def
    using a r staged_success[of "parse (QuoteStaticInfoSchema args)" params "getQuoteContext sdk" s ctx s'
       "staticInfo sdk" items sdk "map Object" r]
    by simp
  with b show "\<exists>result. quoteStaticInfo sdk args s = (Inr result, s') \<and>
                one_block_per_item sdk items result"
    by blast
qed

lemma quoteRealtimeInfo_blocks:
  "(\<forall>params ctx items.
      parse (QuoteRealtimeInfoSchema args) = Inr params \<and>
      getQuoteContext sdk s = (Inr ctx, s') \<and> quote sdk ctx params = Inr items \<and>
      (\<forall>x \<in> set items. \<exists>t. JSON_stringify sdk x = Inr t) \<longrightarrow>
      (\<exists>result. quoteRealtimeInfo sdk args s = (Inr result, s') \<and>
                one_block_per_item sdk items result))"
proof (intro allI impI)
  fix params ctx items
  assume a: "parse (QuoteRealtimeInfoSchema args) = Inr params \<and>
      getQuoteContext sdk s = (Inr ctx, s') \<and> quote sdk ctx params = Inr items \<and>
      (\<forall>x \<in> set items. \<exists>t. JSON_stringify sdk x = Inr t)"
  then obtain r where r: "handleSuccessResult sdk (map Object items) = Inr r"
      and b: "one_block_per_item sdk items r"
    using spread_total[of items sdk] by blast
  have "quoteRealtimeInfo sdk args s = (Inr r, s')"
    unfolding quoteRealtimeInfo_def quoteRealtimeInfo_try_def
    using a r staged_success[of "parse (QuoteRealtimeInfoSchema args)" params "getQuoteContext sdk" s ctx s'
       "quote sdk" items sdk "map Object" r]
    by simp
  with b show "\<exists>result. quoteRealtimeInfo sdk args s = (Inr result, s') \<and>
                one_block_per_item sdk items result"
    by blast
qed

lemma quoteDepth_blocks:
  "(\<forall>params ctx item.
      parse (QuoteDepthSchema args) = Inr params \<and>
      getQuoteContext sdk s = (Inr ctx, s') \<and> depth sdk ctx params = Inr item \<and>
      (\<exists>t. JSON_stringify sdk item = Inr t) \<longrightarrow>
      (\<exists>result. quoteDepth sdk args s = (Inr result, s') \<and>
                one_block_per_item sdk [item] result))"
proof (intro allI impI)
  fix params ctx item
  assume a: "parse (QuoteDepthSchema args) = Inr params \<and>
      getQuoteContext sdk s = (Inr ctx, s') \<and> depth sdk ctx params = Inr item \<and>
      (\<exists>t. JSON_stringify sdk item = Inr t)"
  then obtain r where r: "handleSuccessResult sdk [Object item] = Inr r"
      and b: "one_block_per_item sdk [item] r"
    using single_total[of sdk item] by blast
  have "quoteDepth sdk args s = (Inr r, s')"
    unfolding quoteDepth_def quoteDepth_try_def
    using a r staged_success[of "parse (QuoteDepthSchema args)" params "getQuoteContext sdk" s ctx s'
       "depth sdk" item sdk "\<lambda>x. [Object x]" r]
    by simp
  with b show "\<exists>result. quoteDepth sdk args s = (Inr result, s') \<and>
                one_block_per_item sdk [item] result"
    by blast
qed

lemma quoteTrades_blocks:
  "(\<forall>params ctx items.
      parse (QuoteTradesSchema args) = Inr params \<and>
      getQuoteContext sdk s = (Inr ctx, s') \<and> trades sdk ctx (fst params) (snd params) = Inr items \<and>
      (\<forall>x \<in> set items. \<exists>t. JSON_stringify sdk x = Inr t) \<longrightarrow>
      (\<exists>result. quoteTrades sdk args s = (Inr result, s') \<and>
                one_block_per_item sdk items result))"
proof (intro allI impI)
  fix params ctx items
  assume a: "parse (QuoteTradesSchema args) = Inr params \<and>
      getQuoteContext sdk s = (Inr ctx, s') \<and> trades sdk ctx (fst params) (snd params) = Inr items \<and>
      (\<forall>x \<in> set items. \<exists>t. JSON_stringify sdk x = Inr t)"
  then obtain r where r: "handleSuccessResult sdk (map Object items) = Inr r"
      and b: "one_block_per_item sdk items r"
    using spread_total[of items sdk] by blast
  have "quoteTrades sdk args s = (Inr r, s')"
    unfolding quoteTrades_def quoteTrades_try_def
    using a r staged_success[of "parse (QuoteTradesSchema args)" params "getQuoteContext sdk" s ctx s'
       "\<lambda>ctx params. trades sdk ctx (fst params) (snd params)" items sdk "map Object" r]
    by simp
  with b show "\<exists>result. quoteTrades sdk args s = (Inr result, s') \<and>
                one_block_per_item sdk items result"
    by blast
qed

lemma quoteIntraday_blocks:
  "(\<forall>params ctx items.
      parse (QuoteIntradaySchema args) = Inr params \<and>
      getQuoteContext sdk s = (Inr ctx, s') \<and> intraday sdk ctx params = Inr items \<and>
      (\<forall>x \<in> set items. \<exists>t. JSON_stringify sdk x = Inr t) \<longrightarrow>
      (\<exists>result. quoteIntraday sdk args s = (Inr result, s') \<and>
                one_block_for_array sdk items result \<and> length (content result) = 1))"
proof (intro allI impI)
  fix params ctx items
  assume a: "parse (QuoteIntradaySchema args) = Inr params \<and>
      getQuoteContext sdk s = (Inr ctx, s') \<and> intraday sdk ctx params = Inr items \<and>
      (\<forall>x \<in> set items. \<exists>t. JSON_stringify sdk x = Inr t)"
  then obtain r where r: "handleSuccessResult sdk [Array items] = Inr r"
      and b: "one_block_for_array sdk items r \<and> length (content r) = 1"
    using array_total[of items sdk] by blast
  have "quoteIntraday sdk args s = (Inr r, s')"
    unfolding quoteIntraday_def quoteIntraday_try_def
    using a r staged_success[of "parse (QuoteIntradaySchema args)" params "getQuoteContext sdk" s ctx s'
       "intraday sdk" items sdk "\<lambda>x. [Array x]" r]
    by simp
  with b show "\<exists>result. quoteIntraday sdk args s = (Inr result, s') \<and>
                one_block_for_array sdk items result \<and> length (content result) = 1"
    by blast
qed

lemma quoteHistoryCandlesticks_blocks:
  "(\<forall>params ctx items.
      parse (QuoteHistoryCandlesticksSchema (Period_values sdk) (AdjustType_values sdk) args) = Inr params \<and>
      getQuoteContext sdk s = (Inr ctx, s') \<and> historyCandlesticks sdk ctx (candlestick_request params) = Inr items \<and>
      (\<forall>x \<in> set items. \<exists>t. JSON_stringify sdk x = Inr t) \<longrightarrow>
      (\<exists>result. quoteHistoryCandlesticks sdk args s = (Inr result, s') \<and>
                one_block_for_array sdk items result \<and> length (content result) = 1))"
proof (intro allI impI)
  fix params ctx items
  assume a: "parse (QuoteHistoryCandlesticksSchema (Period_values sdk) (AdjustType_values sdk) args) = Inr params \<and>
      getQuoteContext sdk s = (Inr ctx, s') \<and> historyCandlesticks sdk ctx (candlestick_request params) = Inr items \<and>
      (\<forall>x \<in> set items. \<exists>t. JSON_stringify sdk x = Inr t)"
  then obtain r where r: "handleSuccessResult sdk [Array items] = Inr r"
      and b: "one_block_for_array sdk items r \<and> length (content r) = 1"
    using array_total[of items sdk] by blast
  have "quoteHistoryCandlesticks sdk args s = (Inr r, s')"
    unfolding quoteHistoryCandlesticks_def quoteHistoryCandlesticks_try_def
    using a r staged_success[of "parse (QuoteHistoryCandlesticksSchema (Period_values sdk) (AdjustType_values sdk) args)" params "getQuoteContext sdk" s ctx s'
       "\<lambda>ctx params. historyCandlesticks sdk ctx (candlestick_request params)" items sdk "\<lambda>x. [Array x]" r]
    by simp
  with b show "\<exists>result. quoteHistoryCandlesticks sdk args s = (Inr result, s') \<and>
                one_block_for_array sdk items result \<and> length (content result) = 1"
    by blast
qed

lemma quoteCapitalFlow_blocks:
  "(\<forall>params ctx items.
      parse (QuoteCapitalFlowSchema args) = Inr params \<and>
      getQuoteContext sdk s = (Inr ctx, s') \<and> capitalFlow sdk ctx params = Inr items \<and>
      (\<forall>x \<in> set items. \<exists>t. JSON_stringify sdk x = Inr t) \<longrightarrow>
      (\<exists>result. quoteCapitalFlow sdk args s = (Inr result, s') \<and>
                one_block_for_array sdk items result \<and> length (content result) = 1))"
proof (intro allI impI)
  fix params ctx items
  assume a: "parse (QuoteCapitalFlowSchema args) = Inr params \<and>
      getQuoteContext sdk s = (Inr ctx, s') \<and> capitalFlow sdk ctx params = Inr items \<and>
      (\<forall>x \<in> set items. \<exists>t. JSON_stringify sdk x = Inr t)"
  then obtain r where r: "handleSuccessResult sdk [Array items] = Inr r"
      and b: "one_block_for_array sdk items r \<and> length (content r) = 1"
    using array_total[of items sdk] by blast
  have "quoteCapitalFlow sdk args s = (Inr r, s')"
    unfolding quoteCapitalFlow_def quoteCapitalFlow_try_def
    using a r staged_success[of "parse (QuoteCapitalFlowSchema args)" params "getQuoteContext sdk" s ctx s'
       "capitalFlow sdk" items sdk "\<lambda>x. [Array x]" r]
    by simp
  with b show "\<exists>result. quoteCapitalFlow sdk args s = (Inr result, s') \<and>
                one_block_for_array sdk items result \<and> length (content result) = 1"
    by blast
qed

lemma quoteCapitalDistribution_blocks:
  "(\<forall>params ctx item.
      parse (QuoteCapitalDistributionSchema args) = Inr params \<and>
      getQuoteContext sdk s = (Inr ctx, s') \<and> capitalDistribution sdk ctx params = Inr item \<and>
      (\<exists>t. JSON_stringify sdk item = Inr t) \<longrightarrow>
      (\<exists>result. quoteCapitalDistribution sdk args s = (Inr result, s') \<and>
                one_block_per_item sdk [item] result))"
proof (intro allI impI)
  fix params ctx item
  assume a: "parse (QuoteCapitalDistributionSchema args) = Inr params \<and>
      getQuoteContext sdk s = (Inr ctx, s') \<and> capitalDistribution sdk ctx params = Inr item \<and>
      (\<exists>t. JSON_stringify sdk item = Inr t)"
  then obtain r where r: "handleSuccessResult sdk [Object item] = Inr r"
      and b: "one_block_per_item sdk [item] r"
    using single_total[of sdk item] by blast
  have "quoteCapitalDistribution sdk args s = (Inr r, s')"
    unfolding quoteCapitalDistribution_def quoteCapitalDistribution_try_def
    using a r staged_success[of "parse (QuoteCapitalDistributionSchema args)" params "getQuoteContext sdk" s ctx s'
       "capitalDistribution sdk" item sdk "\<lambda>x. [Object x]" r]
    by simp
  with b show "\<exists>result. quoteCapitalDistribution sdk args s = (Inr result, s') \<and>
                one_block_per_item sdk [item] result"
    by blast
qed

lemma quoteCalcIndex_blocks:
  "(\<forall>params ctx items.
      parse (QuoteCalcIndexSchema (CalcIndex_values sdk) args) = Inr params \<and>
      getQuoteContext sdk s = (Inr ctx, s') \<and> calcIndexes sdk ctx (fst params) (snd params) = Inr items \<and>
      (\<forall>x \<in> set items. \<exists>t. JSON_stringify sdk x = Inr t) \<longrightarrow>
      (\<exists>result. quoteCalcIndex sdk args s = (Inr result, s') \<and>
                one_block_for_array sdk items result \<and> length (content result) = 1))"
proof (intro allI impI)
  fix params ctx items
  assume a: "parse (QuoteCalcIndexSchema (CalcIndex_values sdk) args) = Inr params \<and>
      getQuoteContext sdk s = (Inr ctx, s') \<and> calcIndexes sdk ctx (fst params) (snd params) = Inr items \<and>
      (\<forall>x \<in> set items. \<exists>t. JSON_stringify sdk x = Inr t)"
  then obtain r where r: "handleSuccessResult sdk [Array items] = Inr r"
      and b: "one_block_for_array sdk items r \<and> length (content r) = 1"
    using array_total[of items sdk] by blast
  have "quoteCalcIndex sdk args s = (Inr r, s')"
    unfolding quoteCalcIndex_def quoteCalcIndex_try_def
    using a r staged_success[of "parse (QuoteCalcIndexSchema (CalcIndex_values sdk) args)" params "getQuoteContext sdk" s ctx s'
       "\<lambda>ctx params. calcIndexes sdk ctx (fst params) (snd params)" items sdk "\<lambda>x. [Array x]" r]
    by simp
  with b show "\<exists>result. quoteCalcIndex sdk args s = (Inr result, s') \<and>
                one_block_for_array sdk items result \<and> length (content result) = 1"
    by blast
qed

lemma quoteWatchList_blocks:
  "(\<forall>ctx items.
      getQuoteContext sdk s = (Inr ctx, s') \<and> watchlist sdk ctx = Inr items \<and>
      (\<forall>x \<in> set items. \<exists>t. JSON_stringify sdk x = Inr t) \<longrightarrow>
      (\<exists>result. quoteWatchList sdk args s = (Inr result, s') \<and>
                one_block_per_item sdk items result))"
proof (intro allI impI)
  fix ctx items
  assume a: "getQuoteContext sdk s = (Inr ctx, s') \<and> watchlist sdk ctx = Inr items \<and>
      (\<forall>x \<in> set items. \<exists>t. JSON_stringify sdk x = Inr t)"
  then obtain r where r: "handleSuccessResult sdk (map Object items) = Inr r"
      and b: "one_block_per_item sdk items r"
    using spread_total[of items sdk] by blast
  have "quoteWatchList sdk args s = (Inr r, s')"
    using a r by (simp add: quoteWatchList_def quoteWatchList_try_def try_catch_def and_then_def step_def)
  with b show "\<exists>result. quoteWatchList sdk args s = (Inr result, s') \<and>
                one_block_per_item sdk items result"
    by blast
qed

lemma tradeHistoryExecutions_blocks:
  "(\<forall>params ctx items.
      parse (TradeHistoryExecutionsSchema (datetime_pattern sdk) args) = Inr params \<and>
      getTradeContext sdk s = (Inr ctx, s') \<and> historyExecutions sdk ctx params = Inr items \<and>
      (\<forall>x \<in> set items. \<exists>t. JSON_stringify sdk x = Inr t) \<longrightarrow>
      (\<exists>result. tradeHistoryExecutions sdk args s = (Inr result, s') \<and>
                one_block_per_item sdk items result))"
proof (intro allI impI)
  fix params ctx items
  assume a: "parse (TradeHistoryExecutionsSchema (datetime_pattern sdk) args) = Inr params \<and>
      getTradeContext sdk s = (Inr ctx, s') \<and> historyExecutions sdk ctx params = Inr items \<and>
      (\<forall>x \<in> set items. \<exists>t. JSON_stringify sdk x = Inr t)"
  then obtain r where r: "handleSuccessResult sdk (map Object items) = Inr r"
      and b: "one_block_per_item sdk items r"
    using spread_total[of items sdk] by blast
  have "tradeHistoryExecutions sdk args s = (Inr r, s')"
    unfolding tradeHistoryExecutions_def tradeHistoryExecutions_try_def
    using a r staged_success[of "parse (TradeHistoryExecutionsSchema (datetime_pattern sdk) args)" params "getTradeContext sdk" s ctx s'
       "historyExecutions sdk" items sdk "map Object" r]
    by simp
  with b show "\<exists>result. tradeHistoryExecutions sdk args s = (Inr result, s') \<and>
                one_block_per_item sdk items result"
    by blast
qed

lemma tradeTodayExecutions_blocks:
  "(\<forall>params ctx items.
      parse (TradeTodayExecutionsSchema args) = Inr params \<and>
      getTradeContext sdk s = (Inr ctx, s') \<and> todayExecutions sdk ctx params = Inr items \<and>
      (\<forall>x \<in> set items. \<exists>t. JSON_stringify sdk x = Inr t) \<longrightarrow>
      (\<exists>result. tradeTodayExecutions sdk args s = (Inr result, s') \<and>
                one_block_per_item sdk items result))"
proof (intro allI impI)
  fix params ctx items
  assume a: "parse (TradeTodayExecutionsSchema args) = Inr params \<and>
      getTradeContext sdk s = (Inr ctx, s') \<and> todayExecutions sdk ctx params = Inr items \<and>
      (\<forall>x \<in> set items. \<exists>t. JSON_stringify sdk x = Inr t)"
  then obtain r where r: "handleSuccessResult sdk (map Object items) = Inr r"
      and b: "one_block_per_item sdk items r"
    using spread_total[of items sdk] by blast
  have "tradeTodayExecutions sdk args s = (Inr r, s')"
    unfolding tradeTodayExecutions_def tradeTodayExecutions_try_def
    using a r staged_success[of "parse (TradeTodayExecutionsSchema args)" params "getTradeContext sdk" s ctx s'
       "todayExecutions sdk" items sdk "map Object" r]
    by simp
  with b show "\<exists>result. tradeTodayExecutions sdk args s = (Inr result, s') \<and>
                one_block_per_item sdk items result"
    by blast
qed

lemma tradeAccountBalance_blocks:
  "(\<forall>params ctx items.
      parse (TradeAccountBalanceSchema args) = Inr params \<and>
      getTradeContext sdk s = (Inr ctx, s') \<and> accountBalance sdk ctx params = Inr items \<and>
      (\<forall>x \<in> set items. \<exists>t. JSON_stringify sdk x = Inr t) \<longrightarrow>
      (\<exists>result. tradeAccountBalance sdk args s = (Inr result, s') \<and>
                one_block_per_item sdk items result))"
proof (intro allI impI)
  fix params ctx items
  assume a: "parse (TradeAccountBalanceSchema args) = Inr params \<and>
      getTradeContext sdk s = (Inr ctx, s') \<and> accountBalance sdk ctx params = Inr items \<and>
      (\<forall>x \<in> set items. \<exists>t. JSON_stringify sdk x = Inr t)"
  then obtain r where r: "handleSuccessResult sdk (map Object items) = Inr r"
      and b: "one_block_per_item sdk items r"
    using spread_total[of items sdk] by blast
  have "tradeAccountBalance sdk args s = (Inr r, s')"
    unfolding tradeAccountBalance_def tradeAccountBalance_try_def
    using a r staged_success[of "parse (TradeAccountBalanceSchema args)" params "getTradeContext sdk" s ctx s'
       "accountBalance sdk" items sdk "map Object" r]
    by simp
  with b show "\<exists>result. tradeAccountBalance sdk args s = (Inr result, s') \<and>
                one_block_per_item sdk items result"
    by blast
qed

lemma tradeStockPositions_blocks:
  "(\<forall>params ctx items.
      parse (TradeStockPositionsSchema args) = Inr params \<and>
      getTradeContext sdk s = (Inr ctx, s') \<and> stockPositions sdk ctx params = Inr items \<and>
      (\<forall>x \<in> set items. \<exists>t. JSON_stringify sdk x = Inr t) \<longrightarrow>
      (\<exists>result. tradeStockPositions sdk args s = (Inr result, s') \<and>
                one_block_per_item sdk items result))"
proof (intro allI impI)
  fix params ctx items
  assume a: "parse (TradeStockPositionsSchema args) = Inr params \<and>
      getTradeContext sdk s = (Inr ctx, s') \<and> stockPositions sdk ctx params = Inr items \<and>
      (\<forall>x \<in> set items. \<exists>t. JSON_stringify sdk x = Inr t)"
  then obtain r where r: "handleSuccessResult sdk (map Object items) = Inr r"
      and b: "one_block_per_item sdk items r"
    using spread_total[of items sdk] by blast
  have "tradeStockPositions sdk args s = (Inr r, s')"
    unfolding tradeStockPositions_def tradeStockPositions_try_def
    using a r staged_success[of "parse (TradeStockPositionsSchema args)" params "getTradeContext sdk" s ctx s'
       "stockPositions sdk" items sdk "map Object" r]
    by simp
  with b show "\<exists>result. tradeStockPositions sdk args s = (Inr result, s') \<and>
                one_block_per_item sdk items result"
    by blast
qed

lemmas handler_eval =
  callTool_def ToolNameSchema_def Tool_members_def new_LongBridge_def start_world_def
  try_catch_def and_then_def step_def parse_def
  getQuoteContext_def getQuoteContext_begin_def getQuoteContext_resume_def
  getTradeContext_def getTradeContext_begin_def getTradeContext_resume_def
  config_def handleSuccessResult_def handleErrorResult_def stringify_def error_message_def
  test_backend_def

lemma depth_eval: "callTool test_backend ''quote-depth'' (Some (JObj [(''symbol'', JStr ''AAPL.US'')])) w
  = (Inr \<lparr>content = [TextBlock ''AAPL.US''], isError = None\<rparr>,
     w\<lparr>config_loads := Suc (config_loads w), quote_constructions := Suc (quote_constructions w)\<rparr>)"
  by (simp add: handler_eval quoteDepth_def quoteDepth_try_def QuoteDepthSchema_def schema_eval)

lemma getQuoteContext_fresh_loads:
  "config_loads (snd (snd (getQuoteContext sdk (new_LongBridge, w)))) = Suc (config_loads w)"
proof (cases "Config_fromEnv sdk")
  case (Inl e)
  then show ?thesis
    by (simp add: getQuoteContext_def getQuoteContext_begin_def getQuoteContext_resume_def
          config_def new_LongBridge_def)
next
  case (Inr c)
  then show ?thesis
    by (cases "QuoteContext_new sdk c (quote_constructions w)")
       (simp_all add: getQuoteContext_def getQuoteContext_begin_def getQuoteContext_resume_def
          config_def new_LongBridge_def)
qed

lemma state_after_session:
  "snd (try_catch sdk (and_then m (\<lambda>x. and_then (step (g x)) (\<lambda>r. step (h r)))) s) = snd (m s)"
proof (cases "m s")
  case (Pair a s')
  then show ?thesis
    by (cases a; cases "g (projr a)"; cases "h (projr (g (projr a)))")
       (simp_all add: try_catch_def and_then_def step_def)
qed

lemma watch_list_loads_config:
  "config_loads (snd (callTool sdk ''quote-watch-list'' args w)) = Suc (config_loads w)"
proof -
  have n: "ToolNameSchema ''quote-watch-list'' = Inr QuoteWatchList"
    using ToolNameSchema_value[of QuoteWatchList] by simp
  have "snd (callTool sdk ''quote-watch-list'' args w) =
        snd (snd (quoteWatchList sdk args (new_LongBridge, w)))"
    by (simp add: callTool_def n split: prod.splits)
  also have "\<dots> = snd (snd (getQuoteContext sdk (new_LongBridge, w)))"
    by (simp add: quoteWatchList_def quoteWatchList_try_def state_after_session)
  finally show ?thesis by (simp add: getQuoteContext_fresh_loads)
qed



lemma trade_session_eval:
  "getTradeContext test_backend (new_LongBridge, start_world) =
     (Inr 0, \<lparr>config_memo = Some ''config'', tradeContext = Some 0, quoteContext = None\<rparr>,
      \<lparr>config_loads = 1, trade_constructions = 1, quote_constructions = 0\<rparr>)"
  by (simp add: handler_eval)

section \<open>The claims about validation\<close>

text \<open>
  Claim C1. The claim says that a candlestick request with \<open>query_type\<close> 1 and no
  \<open>offset_request\<close> is rejected. The transform of \<open>offset_request\<close> is applied to the
  optional object and always returns an object, so the test \<open>!data.offset_request\<close> of the
  refinement never holds: the request below has no \<open>offset_request\<close> and is accepted, for
  every period \<open>p\<close> and adjustment \<open>a\<close> among the accepted literals, and the
  dispatcher answers it with a success envelope.
\<close>

theorem offset_request_absent_is_accepted:
  "QuoteHistoryCandlesticksSchema (p # periods) (a # adjusts)
     (Some (JObj [(''symbol'', JStr ''AAPL.US''), (''period'', p), (''adjust_type'', a),
                  (''query_type'', JNum 1)])) =
   Ok \<lparr>symbol = ''AAPL.US'', period = p, adjust_type = a, query_type = JNum 1,
        date_request = None,
        offset_request = Some \<lparr>forward = False, datetime = None, count = None\<rparr>\<rparr> \<and>
   callTool test_backend ''quote-history-candlesticks''
     (Some (JObj [(''symbol'', JStr ''AAPL.US''), (''period'', JNum 14), (''adjust_type'', JNum 0),
                  (''query_type'', JNum 1)])) start_world =
   (Inr \<lparr>content = [TextBlock ''[candle 1,candle 2,candle 3]''], isError = None\<rparr>,
    \<lparr>config_loads = 1, trade_constructions = 0, quote_constructions = 1\<rparr>)"
proof (intro conjI)
  show "QuoteHistoryCandlesticksSchema (p # periods) (a # adjusts)
     (Some (JObj [(''symbol'', JStr ''AAPL.US''), (''period'', p), (''adjust_type'', a),
                  (''query_type'', JNum 1)])) =
   Ok \<lparr>symbol = ''AAPL.US'', period = p, adjust_type = a, query_type = JNum 1,
        date_request = None,
        offset_request = Some \<lparr>forward = False, datetime = None, count = None\<rparr>\<rparr>"
    by (simp add: schema_eval)
  have ok: "QuoteHistoryCandlesticksSchema (Period_values test_backend) (AdjustType_values test_backend)
     (Some (JObj [(''symbol'', JStr ''AAPL.US''), (''period'', JNum 14), (''adjust_type'', JNum 0),
                  (''query_type'', JNum 1)])) =
   Ok \<lparr>symbol = ''AAPL.US'', period = JNum 14, adjust_type = JNum 0, query_type = JNum 1,
        date_request = None,
        offset_request = Some \<lparr>forward = False, datetime = None, count = None\<rparr>\<rparr>"
    by (simp add: schema_eval test_backend_def)
  show "callTool test_backend ''quote-history-candlesticks''
     (Some (JObj [(''symbol'', JStr ''AAPL.US''), (''period'', JNum 14), (''adjust_type'', JNum 0),
                  (''query_type'', JNum 1)])) start_world =
   (Inr \<lparr>content = [TextBlock ''[candle 1,candle 2,candle 3]''], isError = None\<rparr>,
    \<lparr>config_loads = 1, trade_constructions = 0, quote_constructions = 1\<rparr>)"
    by (simp add: callTool_def ToolNameSchema_def Tool_members_def quoteHistoryCandlesticks_def
          quoteHistoryCandlesticks_try_def and_then_def step_def try_catch_def ok parse_def)
       (simp add: handler_eval candlestick_request_def)
qed



text \<open>
  Claim C10. In every validated candlestick request \<open>offset_request\<close> is an object. When
  the arguments have no \<open>offset_request\<close>, it is \<open>{forward: false, datetime: undefined,
  count: undefined}\<close>, and for \<open>query_type\<close> 1 the handler sends the query by offset with
  \<open>forward = false\<close>, no date and the count 10.
\<close>

theorem offset_request_always_defined:
  assumes "QuoteHistoryCandlesticksSchema (Period_values sdk) (AdjustType_values sdk) args = Ok params"
  shows "offset_request params \<noteq> None \<and>
         (\<forall>kv. args = Some (JObj kv) \<and> map_of kv ''offset_request'' = None \<longrightarrow>
            offset_request params = Some \<lparr>forward = False, datetime = None, count = None\<rparr> \<and>
            (query_type params = JNum 1 \<longrightarrow>
               candlestick_request params =
                 ByOffset (symbol params) (period params) (adjust_type params) (Some False) None 10 \<and>
               quoteHistoryCandlesticks sdk args s =
                 try_catch sdk
                   (and_then (getQuoteContext sdk) (\<lambda>ctx.
                    and_then (step (historyCandlesticks sdk ctx
                       (ByOffset (symbol params) (period params) (adjust_type params)
                          (Some False) None 10))) (\<lambda>result.
                    step (handleSuccessResult sdk [Array result])))) s))"
proof (intro conjI allI impI)
  from assms have obj: "candlestick_object (Period_values sdk) (AdjustType_values sdk) args = Ok params"
    by (simp add: schema_Ok)
  then obtain kv0 where args: "args = Some (JObj kv0)"
    using candlestick_object_args by blast
  show "offset_request params \<noteq> None"
    using candlestick_object_Ok(6)[OF obj[unfolded args]] by (rule offset_request_schema_defined)
  fix kv
  assume a: "args = Some (JObj kv) \<and> map_of kv ''offset_request'' = None"
  show off: "offset_request params = Some \<lparr>forward = False, datetime = None, count = None\<rparr>"
    using candlestick_object_Ok(6)[of "Period_values sdk" "AdjustType_values sdk" kv params] obj a
    by (simp add: offset_request_schema_absent)
  assume q: "query_type params = JNum 1"
  show req: "candlestick_request params =
                 ByOffset (symbol params) (period params) (adjust_type params) (Some False) None 10"
    using off q by (simp add: candlestick_request_def)
  show "quoteHistoryCandlesticks sdk args s =
                 try_catch sdk
                   (and_then (getQuoteContext sdk) (\<lambda>ctx.
                    and_then (step (historyCandlesticks sdk ctx
                       (ByOffset (symbol params) (period params) (adjust_type params)
                          (Some False) None 10))) (\<lambda>result.
                    step (handleSuccessResult sdk [Array result])))) s"
    using assms req
    by (simp add: quoteHistoryCandlesticks_def quoteHistoryCandlesticks_try_def parse_def
          and_then_def step_def try_catch_def)
qed

theorem offset_request_always_defined_witness:
  "offset_request \<lparr>symbol = ''AAPL.US'', period = JNum 14, adjust_type = JNum 0,
       query_type = JNum 1, date_request = None,
       offset_request = Some \<lparr>forward = False, datetime = None, count = None\<rparr>\<rparr> \<noteq> None \<and>
   candlestick_request \<lparr>symbol = ''AAPL.US'', period = JNum 14, adjust_type = JNum 0,
       query_type = JNum 1, date_request = None,
       offset_request = Some \<lparr>forward = False, datetime = None, count = None\<rparr>\<rparr> =
     ByOffset ''AAPL.US'' (JNum 14) (JNum 0) (Some False) None 10 \<and>
   quoteHistoryCandlesticks test_backend
     (Some (JObj [(''symbol'', JStr ''AAPL.US''), (''period'', JNum 14), (''adjust_type'', JNum 0),
                  (''query_type'', JNum 1)])) (new_LongBridge, start_world) =
     (Inr \<lparr>content = [TextBlock ''[candle 1,candle 2,candle 3]''], isError = None\<rparr>,
      \<lparr>config_memo = Some ''config'', tradeContext = None, quoteContext = Some 0\<rparr>,
      \<lparr>config_loads = 1, trade_constructions = 0, quote_constructions = 1\<rparr>)"
proof -
  let ?kv = "[(''symbol'', JStr ''AAPL.US''), (''period'', JNum 14), (''adjust_type'', JNum 0),
              (''query_type'', JNum 1)]"
  let ?params = "\<lparr>symbol = ''AAPL.US'', period = JNum 14, adjust_type = JNum 0,
       query_type = JNum 1, date_request = None,
       offset_request = Some \<lparr>forward = False, datetime = None, count = None\<rparr>\<rparr>"
  have ok: "QuoteHistoryCandlesticksSchema (Period_values test_backend) (AdjustType_values test_backend)
              (Some (JObj ?kv)) = Ok ?params"
    by (simp add: schema_eval test_backend_def)
  from offset_request_always_defined[OF ok, of "(new_LongBridge, start_world)"]
  have a: "offset_request ?params \<noteq> None"
    and b: "\<forall>kv. Some (JObj ?kv) = Some (JObj kv) \<and> map_of kv ''offset_request'' = None \<longrightarrow>
            offset_request ?params = Some \<lparr>forward = False, datetime = None, count = None\<rparr> \<and>
            (query_type ?params = JNum 1 \<longrightarrow>
               candlestick_request ?params =
                 ByOffset (symbol ?params) (period ?params) (adjust_type ?params) (Some False) None 10 \<and>
               quoteHistoryCandlesticks test_backend (Some (JObj ?kv)) (new_LongBridge, start_world) =
                 try_catch test_backend
                   (and_then (getQuoteContext test_backend) (\<lambda>ctx.
                    and_then (step (historyCandlesticks test_backend ctx
                       (ByOffset (symbol ?params) (period ?params) (adjust_type ?params)
                          (Some False) None 10))) (\<lambda>result.
                    step (handleSuccessResult test_backend [Array result])))) (new_LongBridge, start_world))"
    by blast+
  from b[rule_format, of ?kv]
  have c: "candlestick_request ?params = ByOffset ''AAPL.US'' (JNum 14) (JNum 0) (Some False) None 10"
    and d: "quoteHistoryCandlesticks test_backend (Some (JObj ?kv)) (new_LongBridge, start_world) =
                 try_catch test_backend
                   (and_then (getQuoteContext test_backend) (\<lambda>ctx.
                    and_then (step (historyCandlesticks test_backend ctx
                       (ByOffset ''AAPL.US'' (JNum 14) (JNum 0) (Some False) None 10))) (\<lambda>result.
                    step (handleSuccessResult test_backend [Array result])))) (new_LongBridge, start_world)"
    by simp_all
  have e: "try_catch test_backend
                   (and_then (getQuoteContext test_backend) (\<lambda>ctx.
                    and_then (step (historyCandlesticks test_backend ctx
                       (ByOffset ''AAPL.US'' (JNum 14) (JNum 0) (Some False) None 10))) (\<lambda>result.
                    step (handleSuccessResult test_backend [Array result])))) (new_LongBridge, start_world) =
     (Inr \<lparr>content = [TextBlock ''[candle 1,candle 2,candle 3]''], isError = None\<rparr>,
      \<lparr>config_memo = Some ''config'', tradeContext = None, quoteContext = Some 0\<rparr>,
      \<lparr>config_loads = 1, trade_constructions = 0, quote_constructions = 1\<rparr>)"
    by (simp add: handler_eval)
  from a c d e show ?thesis by simp
qed

section \<open>The claims about the dispatcher and the envelope\<close>





text \<open>
  Claim C8, as the code has it. A handler that passes the elements of the collection
  returned by the backend to \<open>handleSuccessResult\<close> (static info, quotes, trades, watch list,
  history and today executions, account balance, stock positions) returns one block per
  element, in the order of the collection, block \<open>i\<close> holding the serialization of element
  \<open>i\<close>. The handlers of intraday, history candlesticks, capital flow and calc indexes pass
  their collection as one value and return exactly one block, which holds the
  serialization of the whole collection. The handlers of depth and capital distribution,
  whose result is one object, return exactly one block.
\<close>

theorem one_block_per_element:
  "(\<forall>params ctx items.
      parse (QuoteStaticInfoSchema args) = Inr params \<and>
      getQuoteContext sdk s = (Inr ctx, s') \<and> staticInfo sdk ctx params = Inr items \<and>
      (\<forall>x \<in> set items. \<exists>t. JSON_stringify sdk x = Inr t) \<longrightarrow>
      (\<exists>result. quoteStaticInfo sdk args s = (Inr result, s') \<and>
                one_block_per_item sdk items result)) \<and>
   (\<forall>params ctx items.
      parse (QuoteRealtimeInfoSchema args) = Inr params \<and>
      getQuoteContext sdk s = (Inr ctx, s') \<and> quote sdk ctx params = Inr items \<and>
      (\<forall>x \<in> set items. \<exists>t. JSON_stringify sdk x = Inr t) \<longrightarrow>
      (\<exists>result. quoteRealtimeInfo sdk args s = (Inr result, s') \<and>
                one_block_per_item sdk items result)) \<and>
   (\<forall>params ctx item.
      parse (QuoteDepthSchema args) = Inr params \<and>
      getQuoteContext sdk s = (Inr ctx, s') \<and> depth sdk ctx params = Inr item \<and>
      (\<exists>t. JSON_stringify sdk item = Inr t) \<longrightarrow>
      (\<exists>result. quoteDepth sdk args s = (Inr result, s') \<and>
                one_block_per_item sdk [item] result)) \<and>
   (\<forall>params ctx items.
      parse (QuoteTradesSchema args) = Inr params \<and>
      getQuoteContext sdk s = (Inr ctx, s') \<and> trades sdk ctx (fst params) (snd params) = Inr items \<and>
      (\<forall>x \<in> set items. \<exists>t. JSON_stringify sdk x = Inr t) \<longrightarrow>
      (\<exists>result. quoteTrades sdk args s = (Inr result, s') \<and>
                one_block_per_item sdk items result)) \<and>
   (\<forall>params ctx items.
      parse (QuoteIntradaySchema args) = Inr params \<and>
      getQuoteContext sdk s = (Inr ctx, s') \<and> intraday sdk ctx params = Inr items \<and>
      (\<forall>x \<in> set items. \<exists>t. JSON_stringify sdk x = Inr t) \<longrightarrow>
      (\<exists>result. quoteIntraday sdk args s = (Inr result, s') \<and>
                one_block_for_array sdk items result \<and> length (content result) = 1)) \<and>
   (\<forall>params ctx items.
      parse (QuoteHistoryCandlesticksSchema (Period_values sdk) (AdjustType_values sdk) args) = Inr params \<and>
      getQuoteContext sdk s = (Inr ctx, s') \<and> historyCandlesticks sdk ctx (candlestick_request params) = Inr items \<and>
      (\<forall>x \<in> set items. \<exists>t. JSON_stringify sdk x = Inr t) \<longrightarrow>
      (\<exists>result. quoteHistoryCandlesticks sdk args s = (Inr result, s') \<and>
                one_block_for_array sdk items result \<and> length (content result) = 1)) \<and>
   (\<forall>params ctx items.
      parse (QuoteCapitalFlowSchema args) = Inr params \<and>
      getQuoteContext sdk s = (Inr ctx, s') \<and> capitalFlow sdk ctx params = Inr items \<and>
      (\<forall>x \<in> set items. \<exists>t. JSON_stringify sdk x = Inr t) \<longrightarrow>
      (\<exists>result. quoteCapitalFlow sdk args s = (Inr result, s') \<and>
                one_block_for_array sdk items result \<and> length (content result) = 1)) \<and>
   (\<forall>params ctx item.
      parse (QuoteCapitalDistributionSchema args) = Inr params \<and>
      getQuoteContext sdk s = (Inr ctx, s') \<and> capitalDistribution sdk ctx params = Inr item \<and>
      (\<exists>t. JSON_stringify sdk item = Inr t) \<longrightarrow>
      (\<exists>result. quoteCapitalDistribution sdk args s = (Inr result, s') \<and>
                one_block_per_item sdk [item] result)) \<and>
   (\<forall>params ctx items.
      parse (QuoteCalcIndexSchema (CalcIndex_values sdk) args) = Inr params \<and>
      getQuoteContext sdk s = (Inr ctx, s') \<and> calcIndexes sdk ctx (fst params) (snd params) = Inr items \<and>
      (\<forall>x \<in> set items. \<exists>t. JSON_stringify sdk x = Inr t) \<longrightarrow>
      (\<exists>result. quoteCalcIndex sdk args s = (Inr result, s') \<and>
                one_block_for_array sdk items result \<and> length (content result) = 1)) \<and>
   (\<forall>ctx items.
      getQuoteContext sdk s = (Inr ctx, s') \<and> watchlist sdk ctx = Inr items \<and>
      (\<forall>x \<in> set items. \<exists>t. JSON_stringify sdk x = Inr t) \<longrightarrow>
      (\<exists>result. quoteWatchList sdk args s = (Inr result, s') \<and>
                one_block_per_item sdk items result)) \<and>
   (\<forall>params ctx items.
      parse (TradeHistoryExecutionsSchema (datetime_pattern sdk) args) = Inr params \<and>
      getTradeContext sdk s = (Inr ctx, s') \<and> historyExecutions sdk ctx params = Inr items \<and>
      (\<forall>x \<in> set items. \<exists>t. JSON_stringify sdk x = Inr t) \<longrightarrow>
      (\<exists>result. tradeHistoryExecutions sdk args s = (Inr result, s') \<and>
                one_block_per_item sdk items result)) \<and>
   (\<forall>params ctx items.
      parse (TradeTodayExecutionsSchema args) = Inr params \<and>
      getTradeContext sdk s = (Inr ctx, s') \<and> todayExecutions sdk ctx params = Inr items \<and>
      (\<forall>x \<in> set items. \<exists>t. JSON_stringify sdk x = Inr t) \<longrightarrow>
      (\<exists>result. tradeTodayExecutions sdk args s = (Inr result, s') \<and>
                one_block_per_item sdk items result)) \<and>
   (\<forall>params ctx items.
      parse (TradeAccountBalanceSchema args) = Inr params \<and>
      getTradeContext sdk s = (Inr ctx, s') \<and> accountBalance sdk ctx params = Inr items \<and>
      (\<forall>x \<in> set items. \<exists>t. JSON_stringify sdk x = Inr t) \<longrightarrow>
      (\<exists>result. tradeAccountBalance sdk args s = (Inr result, s') \<and>
                one_block_per_item sdk items result)) \<and>
   (\<forall>params ctx items.
      parse (TradeStockPositionsSchema args) = Inr params \<and>
      getTradeContext sdk s = (Inr ctx, s') \<and> stockPositions sdk ctx params = Inr items \<and>
      (\<forall>x \<in> set items. \<exists>t. JSON_stringify sdk x = Inr t) \<longrightarrow>
      (\<exists>result. tradeStockPositions sdk args s = (Inr result, s') \<and>
                one_block_per_item sdk items result))"
  by (intro conjI)
     (rule quoteStaticInfo_blocks
        quoteRealtimeInfo_blocks
        quoteDepth_blocks
        quoteTrades_blocks
        quoteIntraday_blocks
        quoteHistoryCandlesticks_blocks
        quoteCapitalFlow_blocks
        quoteCapitalDistribution_blocks
        quoteCalcIndex_blocks
        quoteWatchList_blocks
        tradeHistoryExecutions_blocks
        tradeTodayExecutions_blocks
        tradeAccountBalance_blocks
        tradeStockPositions_blocks)+

theorem one_block_per_element_witness:
  "(\<exists>result. tradeAccountBalance test_backend (Some (JObj [])) (new_LongBridge, start_world) =
      (Inr result, \<lparr>config_memo = Some ''config'', tradeContext = Some 0, quoteContext = None\<rparr>,
       \<lparr>config_loads = 1, trade_constructions = 1, quote_constructions = 0\<rparr>) \<and>
      one_block_per_item test_backend [''HKD'', ''USD'', ''CNH''] result) \<and>
   (\<exists>result. quoteDepth test_backend (Some (JObj [(''symbol'', JStr ''AAPL.US'')]))
        (new_LongBridge, start_world) =
      (Inr result, \<lparr>config_memo = Some ''config'', tradeContext = None, quoteContext = Some 0\<rparr>,
       \<lparr>config_loads = 1, trade_constructions = 0, quote_constructions = 1\<rparr>) \<and>
      one_block_per_item test_backend [''AAPL.US''] result) \<and>
   (\<exists>result. quoteIntraday test_backend (Some (JObj [(''symbol'', JStr ''AAPL.US'')]))
        (new_LongBridge, start_world) =
      (Inr result, \<lparr>config_memo = Some ''config'', tradeContext = None, quoteContext = Some 0\<rparr>,
       \<lparr>config_loads = 1, trade_constructions = 0, quote_constructions = 1\<rparr>) \<and>
      one_block_for_array test_backend [''AAPL.US''] result \<and> length (content result) = 1)"
proof (intro conjI)
  let ?s1 = "(\<lparr>config_memo = Some ''config'', tradeContext = Some (0::nat), quoteContext = None\<rparr>,
        \<lparr>config_loads = 1, trade_constructions = 1, quote_constructions = 0\<rparr>)"
  have p: "parse (TradeAccountBalanceSchema (Some (JObj []))) = Inr None"
    by (simp add: parse_def TradeAccountBalanceSchema_def schema_eval)
  have b: "accountBalance test_backend 0 None = Inr [''HKD'', ''USD'', ''CNH'']"
    by (simp add: test_backend_def)
  have j: "\<forall>x \<in> set [''HKD'', ''USD'', ''CNH'']. \<exists>t. JSON_stringify test_backend x = Inr t"
    by (simp add: test_backend_def)
  from one_block_per_element[where args = "Some (JObj [])" and sdk = test_backend
      and s = "(new_LongBridge, start_world)" and s' = ?s1,
      THEN conjunct2, THEN conjunct2, THEN conjunct2, THEN conjunct2, THEN conjunct2,
      THEN conjunct2, THEN conjunct2, THEN conjunct2, THEN conjunct2, THEN conjunct2,
      THEN conjunct2, THEN conjunct2, THEN conjunct1]
  have "\<forall>params ctx items.
      parse (TradeAccountBalanceSchema (Some (JObj []))) = Inr params \<and>
      getTradeContext test_backend (new_LongBridge, start_world) = (Inr ctx, ?s1) \<and>
      accountBalance test_backend ctx params = Inr items \<and>
      (\<forall>x \<in> set items. \<exists>t. JSON_stringify test_backend x = Inr t) \<longrightarrow>
      (\<exists>result. tradeAccountBalance test_backend (Some (JObj [])) (new_LongBridge, start_world) =
         (Inr result, ?s1) \<and>
         one_block_per_item test_backend items result)"
    .
  from this[rule_format, of None 0 "[''HKD'', ''USD'', ''CNH'']"] p trade_session_eval b j
  show "\<exists>result. tradeAccountBalance test_backend (Some (JObj [])) (new_LongBridge, start_world) =
      (Inr result, ?s1) \<and>
      one_block_per_item test_backend [''HKD'', ''USD'', ''CNH''] result"
    by blast
next
  let ?args = "Some (JObj [(''symbol'', JStr ''AAPL.US'')])"
  let ?s1 = "(\<lparr>config_memo = Some ''config'', tradeContext = None, quoteContext = Some (0::nat)\<rparr>,
        \<lparr>config_loads = 1, trade_constructions = 0, quote_constructions = 1\<rparr>)"
  have p: "parse (QuoteDepthSchema ?args) = Inr ''AAPL.US''"
    by (simp add: parse_def QuoteDepthSchema_def schema_eval)
  have q: "getQuoteContext test_backend (new_LongBridge, start_world) = (Inr 0, ?s1)"
    by (simp add: handler_eval)
  have b: "depth test_backend 0 ''AAPL.US'' = Inr ''AAPL.US''"
    by (simp add: test_backend_def)
  have j: "\<exists>t. JSON_stringify test_backend ''AAPL.US'' = Inr t"
    by (simp add: test_backend_def)
  from one_block_per_element[where args = ?args and sdk = test_backend
      and s = "(new_LongBridge, start_world)" and s' = ?s1,
      THEN conjunct2, THEN conjunct2, THEN conjunct1]
  have "\<forall>params ctx item.
      parse (QuoteDepthSchema ?args) = Inr params \<and>
      getQuoteContext test_backend (new_LongBridge, start_world) = (Inr ctx, ?s1) \<and>
      depth test_backend ctx params = Inr item \<and>
      (\<exists>t. JSON_stringify test_backend item = Inr t) \<longrightarrow>
      (\<exists>result. quoteDepth test_backend ?args (new_LongBridge, start_world) =
         (Inr result, ?s1) \<and>
         one_block_per_item test_backend [item] result)"
    .
  from this[rule_format, of "''AAPL.US''" 0 "''AAPL.US''"] p q b j
  show "\<exists>result. quoteDepth test_backend ?args (new_LongBridge, start_world) =
      (Inr result, ?s1) \<and>
      one_block_per_item test_backend [''AAPL.US''] result"
    by blast
next
  let ?args = "Some (JObj [(''symbol'', JStr ''AAPL.US'')])"
  let ?s1 = "(\<lparr>config_memo = Some ''config'', tradeContext = None, quoteContext = Some (0::nat)\<rparr>,
        \<lparr>config_loads = 1, trade_constructions = 0, quote_constructions = 1\<rparr>)"
  have p: "parse (QuoteIntradaySchema ?args) = Inr ''AAPL.US''"
    by (simp add: parse_def QuoteIntradaySchema_def schema_eval)
  have q: "getQuoteContext test_backend (new_LongBridge, start_world) = (Inr 0, ?s1)"
    by (simp add: handler_eval)
  have b: "intraday test_backend 0 ''AAPL.US'' = Inr [''AAPL.US'']"
    by (simp add: test_backend_def)
  have j: "\<forall>x \<in> set [''AAPL.US'']. \<exists>t. JSON_stringify test_backend x = Inr t"
    by (simp add: test_backend_def)
  from one_block_per_element[where args = ?args and sdk = test_backend
      and s = "(new_LongBridge, start_world)" and s' = ?s1,
      THEN conjunct2, THEN conjunct2, THEN conjunct2, THEN conjunct2, THEN conjunct1]
  have "\<forall>params ctx items.
      parse (QuoteIntradaySchema ?args) = Inr params \<and>
      getQuoteContext test_backend (new_LongBridge, start_world) = (Inr ctx, ?s1) \<and>
      intraday test_backend ctx params = Inr items \<and>
      (\<forall>x \<in> set items. \<exists>t. JSON_stringify test_backend x = Inr t) \<longrightarrow>
      (\<exists>result. quoteIntraday test_backend ?args (new_LongBridge, start_world) =
         (Inr result, ?s1) \<and>
         one_block_for_array test_backend items result \<and> length (content result) = 1)"
    .
  from this[rule_format, of "''AAPL.US''" 0 "[''AAPL.US'']"] p q b j
  show "\<exists>result. quoteIntraday test_backend ?args (new_LongBridge, start_world) =
      (Inr result, ?s1) \<and>
      one_block_for_array test_backend [''AAPL.US''] result \<and> length (content result) = 1"
    by blast
qed

text \<open>
  The claim as it is written says that every handler whose backend call returns a collection
  of \<open>n\<close> elements returns \<open>n\<close> blocks. The handler of the history candlesticks returns one
  block for the three candlesticks of the backend.
\<close>

theorem one_block_per_element_counterexample:
  "historyCandlesticks test_backend 0
     (ByDate ''AAPL.US'' (JNum 14) (JNum 0) (Some \<lparr>year = 2023, month = 10, day = 16\<rparr>)
        (Some \<lparr>year = 2023, month = 10, day = 20\<rparr>)) =
     Inr [''candle 1'', ''candle 2'', ''candle 3''] \<and>
   callTool test_backend ''quote-history-candlesticks''
     (Some (JObj [(''symbol'', JStr ''AAPL.US''), (''period'', JNum 14), (''adjust_type'', JNum 0),
                  (''query_type'', JNum 2),
                  (''date_request'', JObj [(''start_date'', JStr ''20231016''),
                                           (''end_date'', JStr ''20231020'')])])) start_world =
     (Inr \<lparr>content = [TextBlock ''[candle 1,candle 2,candle 3]''], isError = None\<rparr>,
      \<lparr>config_loads = 1, trade_constructions = 0, quote_constructions = 1\<rparr>) \<and>
   \<not> one_block_per_item test_backend [''candle 1'', ''candle 2'', ''candle 3'']
       \<lparr>content = [TextBlock ''[candle 1,candle 2,candle 3]''], isError = None\<rparr>"
proof (intro conjI)
  show "historyCandlesticks test_backend 0
     (ByDate ''AAPL.US'' (JNum 14) (JNum 0) (Some \<lparr>year = 2023, month = 10, day = 16\<rparr>)
        (Some \<lparr>year = 2023, month = 10, day = 20\<rparr>)) =
     Inr [''candle 1'', ''candle 2'', ''candle 3'']"
    by (simp add: test_backend_def)
  have ok: "QuoteHistoryCandlesticksSchema (Period_values test_backend) (AdjustType_values test_backend)
      (Some (JObj [(''symbol'', JStr ''AAPL.US''), (''period'', JNum 14), (''adjust_type'', JNum 0),
                   (''query_type'', JNum 2),
                   (''date_request'', JObj [(''start_date'', JStr ''20231016''),
                                            (''end_date'', JStr ''20231020'')])])) =
      Ok \<lparr>symbol = ''AAPL.US'', period = JNum 14, adjust_type = JNum 0,
         query_type = JNum 2,
         date_request = Some \<lparr>start = \<lparr>year = 2023, month = 10, day = 16\<rparr>,
                               end' = \<lparr>year = 2023, month = 10, day = 20\<rparr>\<rparr>,
         offset_request = Some \<lparr>forward = False, datetime = None, count = None\<rparr>\<rparr>"
    by (simp add: schema_eval parseNaiveDate_20231016 parseNaiveDate_20231020 test_backend_def)
  show "callTool test_backend ''quote-history-candlesticks''
     (Some (JObj [(''symbol'', JStr ''AAPL.US''), (''period'', JNum 14), (''adjust_type'', JNum 0),
                  (''query_type'', JNum 2),
                  (''date_request'', JObj [(''start_date'', JStr ''20231016''),
                                           (''end_date'', JStr ''20231020'')])])) start_world =
     (Inr \<lparr>content = [TextBlock ''[candle 1,candle 2,candle 3]''], isError = None\<rparr>,
      \<lparr>config_loads = 1, trade_constructions = 0, quote_constructions = 1\<rparr>)"
    by (simp add: callTool_def ToolNameSchema_def Tool_members_def quoteHistoryCandlesticks_def
          quoteHistoryCandlesticks_try_def and_then_def step_def try_catch_def ok parse_def)
       (simp add: handler_eval candlestick_request_def)
  show "\<not> one_block_per_item test_backend [''candle 1'', ''candle 2'', ''candle 3'']
       \<lparr>content = [TextBlock ''[candle 1,candle 2,candle 3]''], isError = None\<rparr>"
    by (simp add: one_block_per_item_def)
qed

text \<open>
  Claim C9. A name that is no value of the enumeration \<open>Tool\<close> is answered, not thrown,
  with the error flag and one text block: the text that \<open>fromError\<close> makes of the issue
  holding the received name. A validation failure in a handler is answered in the same
  form. With the text of zod for this issue, the name is a part of the message.
\<close>

theorem unknown_tool_error_envelope:
  assumes "name \<notin> set (map Tool_value Tool_members)"
  shows "callTool sdk name args w =
           (Inr \<lparr>content = [TextBlock (fromError sdk
                [ZodIssue (invalid_enum_value name (map Tool_value Tool_members)) [] None])],
             isError = Some True\<rparr>, w) \<and>
         (\<forall>tool args' s is s'. try_block sdk tool args' s = (Inl (ZodError is), s') \<longrightarrow>
            TOOLS_CONFIG_func sdk tool args' s =
              (Inr \<lparr>content = [TextBlock (fromError sdk is)], isError = Some True\<rparr>, s')) \<and>
         (fromError sdk [ZodIssue (invalid_enum_value name (map Tool_value Tool_members)) [] None] =
            invalid_enum_value_text name (map Tool_value Tool_members) \<longrightarrow>
          (\<exists>m. callTool sdk name args w = (Inr \<lparr>content = [TextBlock m], isError = Some True\<rparr>, w) \<and>
               sublist name m))"
proof (intro conjI allI impI)
  show c: "callTool sdk name args w =
           (Inr \<lparr>content = [TextBlock (fromError sdk
                [ZodIssue (invalid_enum_value name (map Tool_value Tool_members)) [] None])],
             isError = Some True\<rparr>, w)"
    by (simp add: callTool_def ToolNameSchema_unknown[OF assms] handleErrorResult_def)
  {
    fix tool args' and s s' :: "('a, 'b) state" and "is"
    assume "try_block sdk tool args' s = (Inl (ZodError is), s')"
    then show "TOOLS_CONFIG_func sdk tool args' s =
              (Inr \<lparr>content = [TextBlock (fromError sdk is)], isError = Some True\<rparr>, s')"
      by (simp add: TOOLS_CONFIG_func_try try_catch_def handleErrorResult_def)
  }
  assume f: "fromError sdk [ZodIssue (invalid_enum_value name (map Tool_value Tool_members)) [] None] =
            invalid_enum_value_text name (map Tool_value Tool_members)"
  have "sublist name (invalid_enum_value_text name (map Tool_value Tool_members))"
    unfolding invalid_enum_value_text_def
    using sublist_middle[of name "''Validation error: Invalid enum value. Expected '' @
       joinValues (map Tool_value Tool_members) @ '', received '' @ [CHR 0x27]" "[CHR 0x27]"]
    by simp
  with c f show "\<exists>m. callTool sdk name args w = (Inr \<lparr>content = [TextBlock m], isError = Some True\<rparr>, w) \<and>
               sublist name m"
    by simp
qed

theorem unknown_tool_error_envelope_witness:
  "callTool test_backend ''not-a-tool'' None start_world =
     (Inr \<lparr>content = [TextBlock (invalid_enum_value_text ''not-a-tool'' (map Tool_value Tool_members))],
           isError = Some True\<rparr>, start_world) \<and>
   sublist ''not-a-tool'' (invalid_enum_value_text ''not-a-tool'' (map Tool_value Tool_members))"
proof -
  have n: "''not-a-tool'' \<notin> set (map Tool_value Tool_members)"
    by (simp add: Tool_members_def)
  have f: "fromError test_backend
             [ZodIssue (invalid_enum_value ''not-a-tool'' (map Tool_value Tool_members)) [] None] =
           invalid_enum_value_text ''not-a-tool'' (map Tool_value Tool_members)"
    by (simp add: test_backend_def)
  from unknown_tool_error_envelope[OF n, of test_backend None start_world] f
  show ?thesis by auto
qed

section \<open>The claims about sessions\<close>

text \<open>
  Claim C3. The claim says that a process constructs each session and loads the
  configuration at most once. The dispatcher makes a new \<open>LongBridge\<close> object for every
  request, so the fields that memoize the configuration and the sessions are empty at every
  request: two requests for the depth of a symbol load the configuration twice and construct
  two quote sessions, the second request works with another handle than the first, and
  every request for the watch list loads the configuration.
\<close>

theorem sessions_constructed_per_request:
  "serve test_backend
     [(''quote-depth'', Some (JObj [(''symbol'', JStr ''AAPL.US'')])),
      (''quote-depth'', Some (JObj [(''symbol'', JStr ''AAPL.US'')]))] start_world =
   ([Inr \<lparr>content = [TextBlock ''AAPL.US''], isError = None\<rparr>,
     Inr \<lparr>content = [TextBlock ''AAPL.US''], isError = None\<rparr>],
    \<lparr>config_loads = 2, trade_constructions = 0, quote_constructions = 2\<rparr>) \<and>
   fst (getQuoteContext test_backend (new_LongBridge, start_world)) = Inr 0 \<and>
   fst (getQuoteContext test_backend
         (new_LongBridge,
          snd (callTool test_backend ''quote-depth''
                 (Some (JObj [(''symbol'', JStr ''AAPL.US'')])) start_world))) = Inr 1 \<and>
   config_loads (snd (callTool sdk ''quote-watch-list'' args w)) = Suc (config_loads w)"
proof (intro conjI)
  show "serve test_backend
     [(''quote-depth'', Some (JObj [(''symbol'', JStr ''AAPL.US'')])),
      (''quote-depth'', Some (JObj [(''symbol'', JStr ''AAPL.US'')]))] start_world =
   ([Inr \<lparr>content = [TextBlock ''AAPL.US''], isError = None\<rparr>,
     Inr \<lparr>content = [TextBlock ''AAPL.US''], isError = None\<rparr>],
    \<lparr>config_loads = 2, trade_constructions = 0, quote_constructions = 2\<rparr>)"
    by (simp add: depth_eval start_world_def)
  show "fst (getQuoteContext test_backend (new_LongBridge, start_world)) = Inr 0"
    by (simp add: handler_eval)
  show "fst (getQuoteContext test_backend
         (new_LongBridge,
          snd (callTool test_backend ''quote-depth''
                 (Some (JObj [(''symbol'', JStr ''AAPL.US'')])) start_world))) = Inr 1"
    by (simp add: depth_eval) (simp add: handler_eval)
  show "config_loads (snd (callTool sdk ''quote-watch-list'' args w)) = Suc (config_loads w)"
    by (rule watch_list_loads_config)
qed

text \<open>
  Claim C4. The claim says that two concurrent first uses of a session construct it once
  and get the same handle. \<open>getQuoteContext\<close> stores the handle only after the \<open>await\<close>,
  so a second call that starts before the first one resumes finds the field empty and
  constructs again: on one object, and on the two objects of two requests, the calls get
  the handles 0 and 1 and two sessions are constructed.
\<close>

theorem concurrent_first_use_constructs_twice:
  "(case getQuoteContext_begin test_backend (new_LongBridge, start_world) of (p1, s1) \<Rightarrow>
    case getQuoteContext_begin test_backend s1 of (p2, s2) \<Rightarrow>
    case getQuoteContext_resume p1 s2 of (r1, s3) \<Rightarrow>
    case getQuoteContext_resume p2 s3 of (r2, s4) \<Rightarrow>
      (r1, r2, quote_constructions (snd s4))) = (Inr 0, Inr 1, 2) \<and>
   (case getQuoteContext_begin test_backend (new_LongBridge, start_world) of (p1, this1, w1) \<Rightarrow>
    case getQuoteContext_begin test_backend (new_LongBridge, w1) of (p2, this2, w2) \<Rightarrow>
    case getQuoteContext_resume p1 (this1, w2) of (r1, this1', w3) \<Rightarrow>
    case getQuoteContext_resume p2 (this2, w3) of (r2, this2', w4) \<Rightarrow>
      (r1, r2, quote_constructions w4)) = (Inr 0, Inr 1, 2)"
  by (simp add: handler_eval)

end
